theory Spec2Isabelle
  imports
    Complex_Main
    "HOL-Library.AList"
    "HOL-Library.Char_ord"
    "HOL-Library.List_Lexorder"
    "HOL-Library.Product_Lexorder"
    "HOL-Library.Multiset"
    "HOL-Library.Log_Nat"
begin

section \<open>Data model\<close>

text \<open>
  A pandas DataFrame is the list of its rows in index order. Dates are the strings
  produced by \<^verbatim>\<open>strftime("%Y-%m-%d")\<close> and are compared as Python compares strings:
  lexicographically by character code, which is the order of \<^typ>\<open>string\<close> given by
  the lexicographic list order over the character order. Quantities are integers without
  a bound (the overflow of the 64-bit columns is not modelled). Amounts and rates are
  rationals: a finite float64 is the rational it denotes. The definitions of the three
  stages add and divide amounts exactly; the Broker-Stock Folder is given a second time
  below with the arithmetic of the amounts as a parameter, and with float64 arithmetic as
  one such parameter. Every row has all its columns, so the branches for a missing
  column are not modelled.
\<close>

record transaction =
  date :: string
  transaction_no :: string
  symbol :: string
  symbol_full :: string
  buyer_id :: string
  buyer_name :: string
  seller_id :: string
  seller_name :: string
  quantity :: int
  rate :: rat
  amount :: rat

text \<open>
  A parquet file on disk: it does not exist, it exists but \<^verbatim>\<open>pd.read_parquet\<close> raises,
  or it holds a table.
\<close>

datatype 'a parquet = Absent | Unreadable | Stored "'a list"

section \<open>Raw Store: \<^verbatim>\<open>floorsheet_downloader.py\<close>\<close>

text \<open>
  The comparison key of \<^verbatim>\<open>save_to_parquet\<close>:
  \<^verbatim>\<open>df['key'] = df['date'] + '-' + df['transaction_no']\<close>.
\<close>

definition key :: "transaction \<Rightarrow> string" where
  "key r = date r @ ''-'' @ transaction_no r"

text \<open>
  The branch of \<^verbatim>\<open>save_to_parquet\<close> taken when \<^verbatim>\<open>append\<close> holds and the file was
  read: the result is the returned flag and the new content of the file.
\<close>

definition merge_existing ::
  "string \<Rightarrow> transaction list \<Rightarrow> transaction list \<Rightarrow> bool \<times> transaction parquet" where
  "merge_existing cutoff_date existing df =
     (let existing_df = [r \<leftarrow> existing. cutoff_date \<le> date r];
          removed_count = int (length existing) - int (length existing_df);
          new_records = [r \<leftarrow> df. key r \<notin> set (map key existing_df)]
      in if length new_records > 0
         then (True, Stored (existing_df @ new_records))
         else if removed_count > 0
              then (True, Stored existing_df)
              else (True, Stored existing))"

text \<open>
  The tail of \<^verbatim>\<open>save_to_parquet\<close>: no file, \<^verbatim>\<open>append\<close> false, or the read raised
  ("Saving new data only").
\<close>

definition write_new ::
  "string \<Rightarrow> transaction parquet \<Rightarrow> transaction list \<Rightarrow> bool \<times> transaction parquet" where
  "write_new cutoff_date output_file df =
     (let df' = [r \<leftarrow> df. cutoff_date \<le> date r];
          removed_count = int (length df) - int (length df')
      in if removed_count > 0 \<and> df' = []
         then (False, output_file)
         else (True, Stored df'))"

definition save_to_parquet ::
  "string \<Rightarrow> bool \<Rightarrow> transaction parquet \<Rightarrow> transaction list \<Rightarrow> bool \<times> transaction parquet" where
  "save_to_parquet cutoff_date append_flag output_file df =
     (if df = [] then (False, output_file)
      else if append_flag then
        (case output_file of
           Stored existing \<Rightarrow> merge_existing cutoff_date existing df
         | Unreadable \<Rightarrow> write_new cutoff_date output_file df
         | Absent \<Rightarrow> write_new cutoff_date output_file df)
      else write_new cutoff_date output_file df)"

text \<open>
  \<^verbatim>\<open>main\<close> of the downloader after the download: the process exit status (0 when it
  returns normally, 1 from \<^verbatim>\<open>sys.exit(1)\<close>) and the new content of the file.
\<close>

definition downloader_main ::
  "string \<Rightarrow> transaction parquet \<Rightarrow> transaction list \<Rightarrow> nat \<times> transaction parquet" where
  "downloader_main cutoff_date output_file df =
     (if df \<noteq> [] then
        (let (success, file') = save_to_parquet cutoff_date True output_file df
         in if success then (0, file') else (1, file'))
      else (1, output_file))"

section \<open>Date Rollup: \<^verbatim>\<open>floorsheet_date_summarizer.py\<close>\<close>

text \<open>
  An entry of the dictionary \<^verbatim>\<open>broker_stock_aggs\<close> (the accumulators), and a row of a
  per-date summary table (the accumulators and the four derived columns). The columns
  \<^verbatim>\<open>date\<close> and \<^verbatim>\<open>symbol\<close> are \<open>s_date\<close> and \<open>s_symbol\<close> here.
\<close>

record day_agg =
  s_date :: string
  broker_id :: string
  broker_name :: string
  s_symbol :: string
  buy_quantity :: int
  buy_amount :: rat
  sell_quantity :: int
  sell_amount :: rat

record day_summary = day_agg +
  avg_buy_price :: rat
  avg_sell_price :: rat
  net_quantity :: int
  avg_holding_price :: rat

text \<open>Python's \<^verbatim>\<open>/\<close>: a zero divisor raises.\<close>

datatype py_error = ZeroDivisionError

definition py_div :: "rat \<Rightarrow> int \<Rightarrow> py_error + rat" where
  "py_div a b = (if b = 0 then Inl ZeroDivisionError else Inr (a / of_int b))"

definition load_data :: "string \<Rightarrow> transaction parquet \<Rightarrow> transaction list" where
  "load_data cutoff_date input_file =
     (case input_file of
        Absent \<Rightarrow> []
      | Unreadable \<Rightarrow> []
      | Stored df \<Rightarrow> (if df \<noteq> [] then [r \<leftarrow> df. cutoff_date \<le> date r] else df))"

text \<open>
  \<^verbatim>\<open>Series.unique()\<close>: the distinct values in order of first appearance
  (\<^const>\<open>remdups\<close> keeps the last occurrence of each value, hence the reversals).
\<close>

definition unique :: "'a list \<Rightarrow> 'a list" where
  "unique xs = rev (remdups (rev xs))"

text \<open>
  \<^verbatim>\<open>df.groupby([k1, k2, k3]).agg(q=('quantity','sum'), a=('amount','sum')).reset_index()\<close>:
  one row per distinct key triple, the rows sorted by the key (pandas sorts group keys by
  default), each with the sums of the two columns over the rows of its group.
\<close>

definition groupby_sum ::
  "(transaction \<Rightarrow> string \<times> string \<times> string) \<Rightarrow> transaction list
     \<Rightarrow> ((string \<times> string \<times> string) \<times> int \<times> rat) list" where
  "groupby_sum keyf df =
     map (\<lambda>k. (k, sum_list (map quantity [r \<leftarrow> df. keyf r = k]),
                  sum_list (map amount [r \<leftarrow> df. keyf r = k])))
         (sort (remdups (map keyf df)))"

definition buy_data :: "transaction list \<Rightarrow> ((string \<times> string \<times> string) \<times> int \<times> rat) list" where
  "buy_data date_data = groupby_sum (\<lambda>r. (buyer_id r, buyer_name r, symbol r)) date_data"

definition sell_data :: "transaction list \<Rightarrow> ((string \<times> string \<times> string) \<times> int \<times> rat) list" where
  "sell_data date_data = groupby_sum (\<lambda>r. (seller_id r, seller_name r, symbol r)) date_data"

text \<open>
  The bodies of the two loops over \<^verbatim>\<open>buy_data.iterrows()\<close> and
  \<^verbatim>\<open>sell_data.iterrows()\<close>. The dictionary is an association list in insertion order:
  \<^const>\<open>AList.update\<close> overwrites the value of a present key in place and appends an
  absent key at the end, as assignment to a Python dict does.
\<close>

definition add_buy ::
  "string \<Rightarrow> (string \<times> string \<times> string) \<times> int \<times> rat
     \<Rightarrow> ((string \<times> string) \<times> day_agg) list \<Rightarrow> ((string \<times> string) \<times> day_agg) list" where
  "add_buy d row broker_stock_aggs =
     (case row of ((row_buyer_id, row_buyer_name, row_symbol), row_buy_quantity, row_buy_amount) \<Rightarrow>
        (let k = (row_buyer_id, row_symbol) in
         case map_of broker_stock_aggs k of
           None \<Rightarrow>
             AList.update k
               \<lparr>s_date = d, broker_id = row_buyer_id, broker_name = row_buyer_name,
                s_symbol = row_symbol, buy_quantity = row_buy_quantity,
                buy_amount = row_buy_amount, sell_quantity = 0, sell_amount = 0\<rparr>
               broker_stock_aggs
         | Some e \<Rightarrow>
             AList.update k
               (e\<lparr>buy_quantity := buy_quantity e + row_buy_quantity,
                  buy_amount := buy_amount e + row_buy_amount\<rparr>)
               broker_stock_aggs))"

definition add_sell ::
  "string \<Rightarrow> (string \<times> string \<times> string) \<times> int \<times> rat
     \<Rightarrow> ((string \<times> string) \<times> day_agg) list \<Rightarrow> ((string \<times> string) \<times> day_agg) list" where
  "add_sell d row broker_stock_aggs =
     (case row of ((row_seller_id, row_seller_name, row_symbol), row_sell_quantity, row_sell_amount) \<Rightarrow>
        (let k = (row_seller_id, row_symbol) in
         case map_of broker_stock_aggs k of
           None \<Rightarrow>
             AList.update k
               \<lparr>s_date = d, broker_id = row_seller_id, broker_name = row_seller_name,
                s_symbol = row_symbol, buy_quantity = 0, buy_amount = 0,
                sell_quantity = row_sell_quantity, sell_amount = row_sell_amount\<rparr>
               broker_stock_aggs
         | Some e \<Rightarrow>
             AList.update k
               (e\<lparr>sell_quantity := sell_quantity e + row_sell_quantity,
                  sell_amount := sell_amount e + row_sell_amount\<rparr>)
               broker_stock_aggs))"

definition broker_stock_aggs ::
  "string \<Rightarrow> transaction list \<Rightarrow> ((string \<times> string) \<times> day_agg) list" where
  "broker_stock_aggs d date_data =
     fold (add_sell d) (sell_data date_data) (fold (add_buy d) (buy_data date_data) [])"

text \<open>
  The derived columns. Each is a row-wise \<^verbatim>\<open>apply\<close> of a conditional expression; the
  four are computed here row by row, which gives the same table and raises if and only
  if some row of some column raises.
\<close>

definition calc_avg_buy_price :: "day_agg \<Rightarrow> py_error + rat" where
  "calc_avg_buy_price x =
     (if buy_quantity x > 0 then py_div (buy_amount x) (buy_quantity x) else Inr 0)"

definition calc_avg_sell_price :: "day_agg \<Rightarrow> py_error + rat" where
  "calc_avg_sell_price x =
     (if sell_quantity x > 0 then py_div (sell_amount x) (sell_quantity x) else Inr 0)"

definition calc_net_quantity :: "day_agg \<Rightarrow> int" where
  "calc_net_quantity x = buy_quantity x - sell_quantity x"

definition calc_avg_holding_price :: "day_agg \<Rightarrow> py_error + rat" where
  "calc_avg_holding_price x =
     (if calc_net_quantity x > 0
      then py_div (buy_amount x - sell_amount x) (calc_net_quantity x) else Inr 0)"

definition add_metrics :: "day_agg \<Rightarrow> py_error + day_summary" where
  "add_metrics x =
     (case calc_avg_buy_price x of Inl e \<Rightarrow> Inl e | Inr abp \<Rightarrow>
     (case calc_avg_sell_price x of Inl e \<Rightarrow> Inl e | Inr asp \<Rightarrow>
     (case calc_avg_holding_price x of Inl e \<Rightarrow> Inl e | Inr ahp \<Rightarrow>
        Inr \<lparr>s_date = s_date x, broker_id = broker_id x, broker_name = broker_name x,
             s_symbol = s_symbol x, buy_quantity = buy_quantity x, buy_amount = buy_amount x,
             sell_quantity = sell_quantity x, sell_amount = sell_amount x,
             avg_buy_price = abp, avg_sell_price = asp,
             net_quantity = calc_net_quantity x, avg_holding_price = ahp\<rparr>)))"

fun map_result :: "('a \<Rightarrow> 'e + 'b) \<Rightarrow> 'a list \<Rightarrow> 'e + 'b list" where
  "map_result f [] = Inr []"
| "map_result f (x # xs) =
     (case f x of Inl e \<Rightarrow> Inl e | Inr y \<Rightarrow>
     (case map_result f xs of Inl e \<Rightarrow> Inl e | Inr ys \<Rightarrow> Inr (y # ys)))"

text \<open>The body of the loop over the dates: the summary table of one date.\<close>

definition date_df :: "string \<Rightarrow> transaction list \<Rightarrow> py_error + day_summary list" where
  "date_df d date_data = map_result add_metrics (map snd (broker_stock_aggs d date_data))"

fun summarize_dates ::
  "transaction list \<Rightarrow> string list \<Rightarrow> (string \<times> day_summary list) list
     \<Rightarrow> py_error + (string \<times> day_summary list) list" where
  "summarize_dates data [] date_summaries = Inr date_summaries"
| "summarize_dates data (d # dates) date_summaries =
     (case date_df d [r \<leftarrow> data. date r = d] of
        Inl e \<Rightarrow> Inl e
      | Inr df \<Rightarrow>
          summarize_dates data dates
            (if df \<noteq> [] then AList.update d df date_summaries else date_summaries))"

text \<open>
  \<^verbatim>\<open>summarize_by_date\<close>: the dictionary from date to summary table, in insertion order.
  An exception anywhere in the loop is caught and the empty dictionary returned.
\<close>

definition summarize_by_date :: "transaction list \<Rightarrow> (string \<times> day_summary list) list" where
  "summarize_by_date df =
     (if df = [] then []
      else case summarize_dates df (unique (map date df)) [] of
             Inl e \<Rightarrow> []
           | Inr date_summaries \<Rightarrow> date_summaries)"

text \<open>
  \<^verbatim>\<open>save_date_summaries\<close>: \<open>all_date_summaries\<close> is the list of tables that is
  concatenated and written.
\<close>

definition merge_date ::
  "day_summary list \<Rightarrow> string \<times> day_summary list \<Rightarrow> day_summary list list" where
  "merge_date existing_df entry =
     (case entry of (d, new_df) \<Rightarrow>
        if d \<in> set (map s_date existing_df)
        then (let filtered_existing = [r \<leftarrow> existing_df. s_date r \<noteq> d]
              in (if filtered_existing \<noteq> [] then [filtered_existing] else []) @ [new_df])
        else [new_df])"

definition save_date_summaries ::
  "string \<Rightarrow> day_summary parquet \<Rightarrow> (string \<times> day_summary list) list
     \<Rightarrow> bool \<times> day_summary parquet" where
  "save_date_summaries cutoff_date output_file date_summaries =
     (if date_summaries = [] then (False, output_file)
      else
        (let all_date_summaries =
           (case output_file of
              Stored existing \<Rightarrow>
                (let existing_df = [r \<leftarrow> existing. cutoff_date \<le> s_date r]
                 in if existing_df \<noteq> []
                    then concat (map (merge_date existing_df) date_summaries)
                    else map snd date_summaries)
            | Unreadable \<Rightarrow> map snd date_summaries
            | Absent \<Rightarrow> map snd date_summaries)
         in if all_date_summaries \<noteq> []
            then (True, Stored (concat all_date_summaries))
            else (False, output_file)))"

text \<open>\<^verbatim>\<open>FloorsheetDateSummarizer.run\<close>: the returned flag and the new Date Rollup file.\<close>

definition date_rollup_run ::
  "string \<Rightarrow> transaction parquet \<Rightarrow> day_summary parquet \<Rightarrow> bool \<times> day_summary parquet" where
  "date_rollup_run cutoff_date input_file output_file =
     (let raw_data = load_data cutoff_date input_file in
      if raw_data = [] then (False, output_file)
      else (let date_summaries = summarize_by_date raw_data in
            if date_summaries = [] then (False, output_file)
            else save_date_summaries cutoff_date output_file date_summaries))"

section \<open>Global Rollup: \<^verbatim>\<open>floorsheet_summarizer.py\<close>\<close>

record global_agg =
  g_broker_id :: string
  g_broker_name :: string
  g_symbol :: string
  g_buy_quantity :: int
  g_buy_amount :: rat
  g_sell_quantity :: int
  g_sell_amount :: rat
  last_updated :: string

record global_summary = global_agg +
  g_avg_buy_price :: rat
  g_avg_sell_price :: rat
  g_net_quantity :: int
  g_avg_holding_price :: rat

text \<open>The body of the loop over \<^verbatim>\<open>df.iterrows()\<close> in \<^verbatim>\<open>aggregate_broker_stock_data\<close>.\<close>

definition gkey :: "day_summary \<Rightarrow> string \<times> string \<times> string" where
  "gkey row = (broker_id row, broker_name row, s_symbol row)"

definition add_row ::
  "day_summary \<Rightarrow> ((string \<times> string \<times> string) \<times> global_agg) list
     \<Rightarrow> ((string \<times> string \<times> string) \<times> global_agg) list" where
  "add_row row aggs =
     (let k = gkey row in
      case map_of aggs k of
        None \<Rightarrow>
          AList.update k
            \<lparr>g_broker_id = broker_id row, g_broker_name = broker_name row,
             g_symbol = s_symbol row, g_buy_quantity = buy_quantity row,
             g_buy_amount = buy_amount row, g_sell_quantity = sell_quantity row,
             g_sell_amount = sell_amount row, last_updated = s_date row\<rparr>
            aggs
      | Some e \<Rightarrow>
          (let e' = e\<lparr>g_buy_quantity := g_buy_quantity e + buy_quantity row,
                      g_buy_amount := g_buy_amount e + buy_amount row,
                      g_sell_quantity := g_sell_quantity e + sell_quantity row,
                      g_sell_amount := g_sell_amount e + sell_amount row\<rparr>
           in AList.update k
                (if s_date row > last_updated e' then e'\<lparr>last_updated := s_date row\<rparr> else e')
                aggs))"

definition g_calc_avg_buy_price :: "global_agg \<Rightarrow> py_error + rat" where
  "g_calc_avg_buy_price x =
     (if g_buy_quantity x > 0 then py_div (g_buy_amount x) (g_buy_quantity x) else Inr 0)"

definition g_calc_avg_sell_price :: "global_agg \<Rightarrow> py_error + rat" where
  "g_calc_avg_sell_price x =
     (if g_sell_quantity x > 0 then py_div (g_sell_amount x) (g_sell_quantity x) else Inr 0)"

definition g_calc_net_quantity :: "global_agg \<Rightarrow> int" where
  "g_calc_net_quantity x = g_buy_quantity x - g_sell_quantity x"

definition g_calc_avg_holding_price :: "global_agg \<Rightarrow> py_error + rat" where
  "g_calc_avg_holding_price x =
     (if g_calc_net_quantity x > 0
      then py_div (g_buy_amount x - g_sell_amount x) (g_calc_net_quantity x) else Inr 0)"

definition g_add_metrics :: "global_agg \<Rightarrow> py_error + global_summary" where
  "g_add_metrics x =
     (case g_calc_avg_buy_price x of Inl e \<Rightarrow> Inl e | Inr abp \<Rightarrow>
     (case g_calc_avg_sell_price x of Inl e \<Rightarrow> Inl e | Inr asp \<Rightarrow>
     (case g_calc_avg_holding_price x of Inl e \<Rightarrow> Inl e | Inr ahp \<Rightarrow>
        Inr \<lparr>g_broker_id = g_broker_id x, g_broker_name = g_broker_name x,
             g_symbol = g_symbol x, g_buy_quantity = g_buy_quantity x,
             g_buy_amount = g_buy_amount x, g_sell_quantity = g_sell_quantity x,
             g_sell_amount = g_sell_amount x, last_updated = last_updated x,
             g_avg_buy_price = abp, g_avg_sell_price = asp,
             g_net_quantity = g_calc_net_quantity x, g_avg_holding_price = ahp\<rparr>)))"

text \<open>
  \<^verbatim>\<open>aggregate_broker_stock_data\<close> before its \<^verbatim>\<open>except\<close> clause, and with it: an
  exception gives the empty table.
\<close>

definition aggregate_raising :: "day_summary list \<Rightarrow> py_error + global_summary list" where
  "aggregate_raising df = map_result g_add_metrics (map snd (fold add_row df []))"

definition aggregate_broker_stock_data :: "day_summary list \<Rightarrow> global_summary list" where
  "aggregate_broker_stock_data df =
     (if df = [] then []
      else case aggregate_raising df of Inl e \<Rightarrow> [] | Inr agg_df \<Rightarrow> agg_df)"

section \<open>The rows the rollups return\<close>

text \<open>
  The row that \<open>add_metrics\<close> returns for an accumulator (lemma \<open>add_metrics_eq\<close>), the
  table that \<open>date_df\<close> returns for a date (lemma \<open>date_df_eq\<close>), and the row that
  \<open>g_add_metrics\<close> returns (lemma \<open>g_add_metrics_eq\<close>).
\<close>

definition day_row :: "day_agg \<Rightarrow> day_summary" where
  "day_row x =
     \<lparr>s_date = s_date x, broker_id = broker_id x, broker_name = broker_name x,
      s_symbol = s_symbol x, buy_quantity = buy_quantity x, buy_amount = buy_amount x,
      sell_quantity = sell_quantity x, sell_amount = sell_amount x,
      avg_buy_price = (if buy_quantity x > 0 then buy_amount x / of_int (buy_quantity x) else 0),
      avg_sell_price = (if sell_quantity x > 0 then sell_amount x / of_int (sell_quantity x) else 0),
      net_quantity = buy_quantity x - sell_quantity x,
      avg_holding_price =
        (if buy_quantity x - sell_quantity x > 0
         then (buy_amount x - sell_amount x) / of_int (buy_quantity x - sell_quantity x) else 0)\<rparr>"

definition day_rows :: "string \<Rightarrow> transaction list \<Rightarrow> day_summary list" where
  "day_rows d xs = map day_row (map snd (broker_stock_aggs d xs))"

definition global_row :: "global_agg \<Rightarrow> global_summary" where
  "global_row x =
     \<lparr>g_broker_id = g_broker_id x, g_broker_name = g_broker_name x, g_symbol = g_symbol x,
      g_buy_quantity = g_buy_quantity x, g_buy_amount = g_buy_amount x,
      g_sell_quantity = g_sell_quantity x, g_sell_amount = g_sell_amount x,
      last_updated = last_updated x,
      g_avg_buy_price =
        (if g_buy_quantity x > 0 then g_buy_amount x / of_int (g_buy_quantity x) else 0),
      g_avg_sell_price =
        (if g_sell_quantity x > 0 then g_sell_amount x / of_int (g_sell_quantity x) else 0),
      g_net_quantity = g_buy_quantity x - g_sell_quantity x,
      g_avg_holding_price =
        (if g_buy_quantity x - g_sell_quantity x > 0
         then (g_buy_amount x - g_sell_amount x) / of_int (g_buy_quantity x - g_sell_quantity x)
         else 0)\<rparr>"

section \<open>Invariants of the two folds\<close>

text \<open>
  An entry of the per-date dictionary is \<open>keyed\<close> when its key is the broker and the
  symbol of its value, and \<open>named_by_buyer\<close> when its name is the buyer name of a
  transaction that has its key as buyer and symbol. \<open>key_total df k\<close> is the accumulator
  of the key \<open>k\<close> of the global fold in closed form: the sums over the rows of \<open>df\<close>
  with that key and the greatest of their dates (lemma \<open>fold_add_row_lookup\<close>).
\<close>

definition named_by_buyer :: "transaction list \<Rightarrow> (string \<times> string) \<times> day_agg \<Rightarrow> bool" where
  "named_by_buyer xs e =
     (\<exists>r \<in> set xs. buyer_id r = fst (fst e) \<and> symbol r = snd (fst e)
        \<and> broker_name (snd e) = buyer_name r)"

definition keyed :: "(string \<times> string) \<times> day_agg \<Rightarrow> bool" where
  "keyed e = (fst e = (broker_id (snd e), s_symbol (snd e)))"

definition key_total :: "day_summary list \<Rightarrow> string \<times> string \<times> string \<Rightarrow> global_agg" where
  "key_total df k =
     \<lparr>g_broker_id = fst k, g_broker_name = fst (snd k), g_symbol = snd (snd k),
      g_buy_quantity = sum_list (map buy_quantity [r \<leftarrow> df. gkey r = k]),
      g_buy_amount = sum_list (map buy_amount [r \<leftarrow> df. gkey r = k]),
      g_sell_quantity = sum_list (map sell_quantity [r \<leftarrow> df. gkey r = k]),
      g_sell_amount = sum_list (map sell_amount [r \<leftarrow> df. gkey r = k]),
      last_updated = Max (s_date ` set [r \<leftarrow> df. gkey r = k])\<rparr>"

section \<open>Example rows\<close>

definition tx :: "string \<Rightarrow> string \<Rightarrow> rat \<Rightarrow> transaction" where
  "tx d n a =
     \<lparr>date = d, transaction_no = n, symbol = ''X'', symbol_full = ''X Ltd'',
      buyer_id = ''1'', buyer_name = ''B1'', seller_id = ''2'', seller_name = ''B2'',
      quantity = 10, rate = a / 10, amount = a\<rparr>"

text \<open>A summary row with its derived columns computed from the accumulators.\<close>

definition srow :: "string \<Rightarrow> string \<Rightarrow> string \<Rightarrow> int \<Rightarrow> rat \<Rightarrow> int \<Rightarrow> rat \<Rightarrow> day_summary" where
  "srow d b name bq ba sq sa =
     day_row \<lparr>s_date = d, broker_id = b, broker_name = name, s_symbol = ''X'',
              buy_quantity = bq, buy_amount = ba, sell_quantity = sq, sell_amount = sa\<rparr>"

text \<open>A raw table with one transaction on each of two days, and its two summary tables.\<close>

definition two_day_raw :: "transaction parquet" where
  "two_day_raw = Stored [tx ''2024-01-02'' ''1'' 100, tx ''2024-01-03'' ''2'' 50]"

definition day1_rows :: "day_summary list" where
  "day1_rows = [srow ''2024-01-02'' ''1'' ''B1'' 10 100 0 0, srow ''2024-01-02'' ''2'' ''B2'' 0 0 10 100]"

definition day2_rows :: "day_summary list" where
  "day2_rows = [srow ''2024-01-03'' ''1'' ''B1'' 10 50 0 0, srow ''2024-01-03'' ''2'' ''B2'' 0 0 10 50]"

text \<open>
  A transaction with its parties given as pairs of id and name, and the two transactions
  of one day in which each of two brokers buys and sells under different names.
\<close>

definition trade ::
  "string \<Rightarrow> string \<Rightarrow> string \<times> string \<Rightarrow> string \<times> string \<Rightarrow> int \<Rightarrow> rat \<Rightarrow> transaction" where
  "trade d n buyer seller q a =
     \<lparr>date = d, transaction_no = n, symbol = ''X'', symbol_full = ''X Ltd'',
      buyer_id = fst buyer, buyer_name = snd buyer,
      seller_id = fst seller, seller_name = snd seller,
      quantity = q, rate = a / of_int q, amount = a\<rparr>"

definition both_sides_day :: "transaction list" where
  "both_sides_day =
     [trade ''2024-01-02'' ''1'' (''B1'', ''Alpha'') (''B2'', ''Beta'') 100 10000,
      trade ''2024-01-02'' ''2'' (''B2'', ''Beta Sec'') (''B1'', ''Alpha Sec'') 40 4200]"

section \<open>The Broker-Stock Folder over a given arithmetic of the amounts\<close>

text \<open>
  The amount columns are float64. The folder is given here with the arithmetic of the
  amounts as a parameter: \<open>fsum\<close> is the \<^verbatim>\<open>sum\<close> of the amount column over one group of the
  \<^verbatim>\<open>groupby\<close>, taken in row order; \<open>fadd\<close> and \<open>fsub\<close> are the \<^verbatim>\<open>+=\<close> and the \<^verbatim>\<open>-\<close> on
  amounts; \<open>fdiv\<close> is the division of an amount by a non-zero quantity. The definitions
  repeat \<open>groupby_sum\<close>, \<open>add_buy\<close>, \<open>add_sell\<close>, \<open>broker_stock_aggs\<close>, \<open>add_metrics\<close> and
  \<open>date_df\<close> with these operations in place of the exact ones. With \<open>exact\<close> they are the
  definitions of the Date Rollup above (lemma \<open>date_df_exact\<close>).
\<close>

record arith =
  fsum :: "rat list \<Rightarrow> rat"
  fadd :: "rat \<Rightarrow> rat \<Rightarrow> rat"
  fsub :: "rat \<Rightarrow> rat \<Rightarrow> rat"
  fdiv :: "rat \<Rightarrow> int \<Rightarrow> rat"

definition groupby_sum_f ::
  "arith \<Rightarrow> (transaction \<Rightarrow> string \<times> string \<times> string) \<Rightarrow> transaction list
     \<Rightarrow> ((string \<times> string \<times> string) \<times> int \<times> rat) list" where
  "groupby_sum_f A keyf df =
     map (\<lambda>k. (k, sum_list (map quantity [r \<leftarrow> df. keyf r = k]),
                  fsum A (map amount [r \<leftarrow> df. keyf r = k])))
         (sort (remdups (map keyf df)))"

definition add_buy_f ::
  "arith \<Rightarrow> string \<Rightarrow> (string \<times> string \<times> string) \<times> int \<times> rat
     \<Rightarrow> ((string \<times> string) \<times> day_agg) list \<Rightarrow> ((string \<times> string) \<times> day_agg) list" where
  "add_buy_f A d row aggs =
     (case row of ((row_buyer_id, row_buyer_name, row_symbol), row_buy_quantity, row_buy_amount) \<Rightarrow>
        (let k = (row_buyer_id, row_symbol) in
         case map_of aggs k of
           None \<Rightarrow>
             AList.update k
               \<lparr>s_date = d, broker_id = row_buyer_id, broker_name = row_buyer_name,
                s_symbol = row_symbol, buy_quantity = row_buy_quantity,
                buy_amount = row_buy_amount, sell_quantity = 0, sell_amount = 0\<rparr>
               aggs
         | Some e \<Rightarrow>
             AList.update k
               (e\<lparr>buy_quantity := buy_quantity e + row_buy_quantity,
                  buy_amount := fadd A (buy_amount e) row_buy_amount\<rparr>)
               aggs))"

definition add_sell_f ::
  "arith \<Rightarrow> string \<Rightarrow> (string \<times> string \<times> string) \<times> int \<times> rat
     \<Rightarrow> ((string \<times> string) \<times> day_agg) list \<Rightarrow> ((string \<times> string) \<times> day_agg) list" where
  "add_sell_f A d row aggs =
     (case row of ((row_seller_id, row_seller_name, row_symbol), row_sell_quantity, row_sell_amount) \<Rightarrow>
        (let k = (row_seller_id, row_symbol) in
         case map_of aggs k of
           None \<Rightarrow>
             AList.update k
               \<lparr>s_date = d, broker_id = row_seller_id, broker_name = row_seller_name,
                s_symbol = row_symbol, buy_quantity = 0, buy_amount = 0,
                sell_quantity = row_sell_quantity, sell_amount = row_sell_amount\<rparr>
               aggs
         | Some e \<Rightarrow>
             AList.update k
               (e\<lparr>sell_quantity := sell_quantity e + row_sell_quantity,
                  sell_amount := fadd A (sell_amount e) row_sell_amount\<rparr>)
               aggs))"

definition broker_stock_aggs_f ::
  "arith \<Rightarrow> string \<Rightarrow> transaction list \<Rightarrow> ((string \<times> string) \<times> day_agg) list" where
  "broker_stock_aggs_f A d date_data =
     fold (add_sell_f A d)
       (groupby_sum_f A (\<lambda>r. (seller_id r, seller_name r, symbol r)) date_data)
       (fold (add_buy_f A d)
          (groupby_sum_f A (\<lambda>r. (buyer_id r, buyer_name r, symbol r)) date_data) [])"

definition py_div_f :: "arith \<Rightarrow> rat \<Rightarrow> int \<Rightarrow> py_error + rat" where
  "py_div_f A a b = (if b = 0 then Inl ZeroDivisionError else Inr (fdiv A a b))"

definition add_metrics_f :: "arith \<Rightarrow> day_agg \<Rightarrow> py_error + day_summary" where
  "add_metrics_f A x =
     (case (if buy_quantity x > 0 then py_div_f A (buy_amount x) (buy_quantity x) else Inr 0) of
        Inl e \<Rightarrow> Inl e | Inr abp \<Rightarrow>
     (case (if sell_quantity x > 0 then py_div_f A (sell_amount x) (sell_quantity x) else Inr 0) of
        Inl e \<Rightarrow> Inl e | Inr asp \<Rightarrow>
     (case (if buy_quantity x - sell_quantity x > 0
            then py_div_f A (fsub A (buy_amount x) (sell_amount x))
                   (buy_quantity x - sell_quantity x)
            else Inr 0) of
        Inl e \<Rightarrow> Inl e | Inr ahp \<Rightarrow>
        Inr \<lparr>s_date = s_date x, broker_id = broker_id x, broker_name = broker_name x,
             s_symbol = s_symbol x, buy_quantity = buy_quantity x, buy_amount = buy_amount x,
             sell_quantity = sell_quantity x, sell_amount = sell_amount x,
             avg_buy_price = abp, avg_sell_price = asp,
             net_quantity = buy_quantity x - sell_quantity x, avg_holding_price = ahp\<rparr>)))"

definition date_df_f :: "arith \<Rightarrow> string \<Rightarrow> transaction list \<Rightarrow> py_error + day_summary list" where
  "date_df_f A d date_data =
     map_result (add_metrics_f A) (map snd (broker_stock_aggs_f A d date_data))"

definition exact :: arith where
  "exact = \<lparr>fsum = sum_list, fadd = (+), fsub = (-), fdiv = (\<lambda>a b. a / of_int b)\<rparr>"

section \<open>float64 arithmetic\<close>

text \<open>
  \<open>round_double\<close> rounds a rational to the nearest float64, ties to even: a significand
  of 53 bits and an exponent of the last place not below \<open>-1074\<close> (the subnormal range).
  Overflow to infinity, NaN and the sign of zero are not modelled. Each float64 operation
  is the exact operation followed by this rounding. \<open>group_sum\<close> is the loop that the
  pandas \<^verbatim>\<open>groupby\<close> \<^verbatim>\<open>sum\<close> runs over the values of one group, a compensated (Kahan)
  summation: \<^verbatim>\<open>y = val - compensation; t = sumx + y; compensation = t - sumx - y; sumx = t\<close>.
\<close>

definition pow2 :: "int \<Rightarrow> rat" where
  "pow2 e = (if 0 \<le> e then 2 ^ nat e else 1 / 2 ^ nat (- e))"

definition ilog2 :: "rat \<Rightarrow> int" where
  "ilog2 x = (if 1 \<le> x then bitlen \<lfloor>x\<rfloor> - 1 else - bitlen (\<lceil>1 / x\<rceil> - 1))"

definition round_half_even :: "rat \<Rightarrow> int" where
  "round_half_even x =
     (let f = \<lfloor>x\<rfloor>; r = x - of_int f
      in if r < 1 / 2 then f else if 1 / 2 < r then f + 1 else if even f then f else f + 1)"

definition round_double :: "rat \<Rightarrow> rat" where
  "round_double x =
     (if x = 0 then 0
      else (let e = max (ilog2 \<bar>x\<bar> - 52) (- 1074)
            in sgn x * of_int (round_half_even (\<bar>x\<bar> / pow2 e)) * pow2 e))"

definition fadd64 :: "rat \<Rightarrow> rat \<Rightarrow> rat" where
  "fadd64 a b = round_double (a + b)"

definition fsub64 :: "rat \<Rightarrow> rat \<Rightarrow> rat" where
  "fsub64 a b = round_double (a - b)"

definition fdiv64 :: "rat \<Rightarrow> int \<Rightarrow> rat" where
  "fdiv64 a b = round_double (a / round_double (of_int b))"

fun group_sum :: "rat \<Rightarrow> rat \<Rightarrow> rat list \<Rightarrow> rat" where
  "group_sum sumx compensation [] = sumx"
| "group_sum sumx compensation (val # vals) =
     (let y = fsub64 val compensation;
          t = fadd64 sumx y
      in group_sum t (fsub64 (fsub64 t sumx) y) vals)"

definition float64 :: arith where
  "float64 = \<lparr>fsum = group_sum 0 0, fadd = fadd64, fsub = fsub64, fdiv = fdiv64\<rparr>"

section \<open>The columns that do not depend on the arithmetic\<close>

text \<open>
  \<open>zero_arith\<close> returns 0 for every operation, and \<open>erase\<close> sets the two amounts of an
  accumulator to 0. \<open>stable_fields\<close> are the columns of a summary row other than the
  amounts and the average prices; \<open>stable_agg\<close> gives them for an accumulator.
\<close>

definition zero_arith :: arith where
  "zero_arith = \<lparr>fsum = (\<lambda>vals. 0), fadd = (\<lambda>a b. 0), fsub = (\<lambda>a b. 0), fdiv = (\<lambda>a b. 0)\<rparr>"

definition erase :: "day_agg \<Rightarrow> day_agg" where
  "erase x = x\<lparr>buy_amount := 0, sell_amount := 0\<rparr>"

definition stable_agg :: "day_agg \<Rightarrow> string \<times> string \<times> string \<times> string \<times> int \<times> int \<times> int" where
  "stable_agg x =
     (s_date x, broker_id x, broker_name x, s_symbol x, buy_quantity x, sell_quantity x,
      buy_quantity x - sell_quantity x)"

definition stable_fields ::
  "day_summary \<Rightarrow> string \<times> string \<times> string \<times> string \<times> int \<times> int \<times> int" where
  "stable_fields x =
     (s_date x, broker_id x, broker_name x, s_symbol x, buy_quantity x, sell_quantity x,
      net_quantity x)"

definition buy_amounts :: "py_error + day_summary list \<Rightarrow> rat list" where
  "buy_amounts res = (case res of Inl e \<Rightarrow> [] | Inr rows \<Rightarrow> map buy_amount rows)"

text \<open>
  The float64 values read from \<^verbatim>\<open>255.81\<close>, \<^verbatim>\<open>8474337.52\<close> and \<^verbatim>\<open>76096.48\<close>, and three
  purchases of one broker on one day with these amounts, in two orders.
\<close>

definition amount_a :: rat where
  "amount_a = round_double (25581 / 100)"

definition amount_b :: rat where
  "amount_b = round_double (847433752 / 100)"

definition amount_c :: rat where
  "amount_c = round_double (7609648 / 100)"

definition three_buys :: "transaction list" where
  "three_buys =
     [trade ''2024-01-02'' ''1'' (''B1'', ''Alpha'') (''B2'', ''Beta'') 10 amount_a,
      trade ''2024-01-02'' ''2'' (''B1'', ''Alpha'') (''B2'', ''Beta'') 10 amount_b,
      trade ''2024-01-02'' ''3'' (''B1'', ''Alpha'') (''B2'', ''Beta'') 10 amount_c]"

definition three_buys_permuted :: "transaction list" where
  "three_buys_permuted =
     [trade ''2024-01-02'' ''1'' (''B1'', ''Alpha'') (''B2'', ''Beta'') 10 amount_a,
      trade ''2024-01-02'' ''3'' (''B1'', ''Alpha'') (''B2'', ''Beta'') 10 amount_c,
      trade ''2024-01-02'' ''2'' (''B1'', ''Alpha'') (''B2'', ''Beta'') 10 amount_b]"

section \<open>Raw Store: the dedup merge and the retention filter\<close>

lemma filter_same_length: "length (filter P xs) = length xs \<Longrightarrow> filter P xs = xs"
  by (metis filter_True length_filter_less less_irrefl_nat)

text \<open>The three writing branches of the merge leave the same table in the file.\<close>

lemma merge_existing_eq:
  "merge_existing c existing df =
     (True, Stored ([r \<leftarrow> existing. c \<le> date r] @
                    [r \<leftarrow> df. key r \<notin> key ` set [r \<leftarrow> existing. c \<le> date r]]))"
proof -
  have "[r \<leftarrow> existing. c \<le> date r] = existing"
    if "\<not> int (length existing) - int (length [r \<leftarrow> existing. c \<le> date r]) > 0"
  proof -
    have "length [r \<leftarrow> existing. c \<le> date r] \<le> length existing" by simp
    with that have "length [r \<leftarrow> existing. c \<le> date r] = length existing" by linarith
    then show ?thesis by (rule filter_same_length)
  qed
  then show ?thesis
    by (auto simp: merge_existing_def Let_def)
qed

text \<open>
  The concatenated key identifies the pair of date and transaction number when the
  dates have one length, as the dates \<^verbatim>\<open>YYYY-MM-DD\<close> have.
\<close>

lemma key_inj:
  assumes "length (date r) = length (date r')"
  shows "key r = key r' \<longleftrightarrow> date r = date r' \<and> transaction_no r = transaction_no r'"
  using assms by (auto simp: key_def)

text \<open>
  C3, as the code has it, for a batch within retention. Writing a non-empty batch whose
  rows all pass the retention filter over a stored table succeeds and leaves a table
  whose key set is the union of the key sets of the stored rows that pass the retention
  filter and of the batch. On a key collision the stored row stays and the row of the
  batch is dropped: the rows of the result that carry a stored key are exactly the
  retained stored rows, and the other rows are exactly the rows of the batch whose key
  is not stored. When all dates have one length the same union holds for the pairs
  (date, transaction number). Every row of the result passes the retention filter.
\<close>

theorem dedup_merge_existing_wins:
  assumes "df \<noteq> []" and within: "\<forall>r \<in> set df. cutoff_date \<le> date r"
  shows "\<exists>merged. save_to_parquet cutoff_date True (Stored existing) df = (True, Stored merged)
    \<and> key ` set merged = key ` set [r \<leftarrow> existing. cutoff_date \<le> date r] \<union> key ` set df
    \<and> [r \<leftarrow> merged. key r \<in> key ` set [r \<leftarrow> existing. cutoff_date \<le> date r]]
          = [r \<leftarrow> existing. cutoff_date \<le> date r]
    \<and> [r \<leftarrow> merged. key r \<notin> key ` set [r \<leftarrow> existing. cutoff_date \<le> date r]]
          = [r \<leftarrow> df. key r \<notin> key ` set [r \<leftarrow> existing. cutoff_date \<le> date r]]
    \<and> ((\<forall>r \<in> set existing \<union> set df. length (date r) = n) \<longrightarrow>
          (\<lambda>r. (date r, transaction_no r)) ` set merged
            = (\<lambda>r. (date r, transaction_no r)) ` set [r \<leftarrow> existing. cutoff_date \<le> date r]
              \<union> (\<lambda>r. (date r, transaction_no r)) ` set df)
    \<and> (\<forall>r \<in> set merged. cutoff_date \<le> date r)"
proof -
  let ?kept = "[r \<leftarrow> existing. cutoff_date \<le> date r]"
  let ?new = "[r \<leftarrow> df. key r \<notin> key ` set ?kept]"
  let ?pair = "\<lambda>r. (date r, transaction_no r)"
  have s: "save_to_parquet cutoff_date True (Stored existing) df = (True, Stored (?kept @ ?new))"
    using assms(1) by (simp add: save_to_parquet_def merge_existing_eq)
  have k: "key ` set (?kept @ ?new) = key ` set ?kept \<union> key ` set df"
    by auto
  have a1: "[r \<leftarrow> ?kept. key r \<in> key ` set ?kept] = ?kept"
    by (rule filter_True) blast
  have a2: "[r \<leftarrow> ?new. key r \<in> key ` set ?kept] = []"
    unfolding filter_empty_conv by (metis (mono_tags, lifting) mem_Collect_eq set_filter)
  have b1: "[r \<leftarrow> ?kept. key r \<notin> key ` set ?kept] = []"
    unfolding filter_empty_conv by blast
  have b2: "[r \<leftarrow> ?new. key r \<notin> key ` set ?kept] = ?new"
    by (rule filter_True) (metis (mono_tags, lifting) mem_Collect_eq set_filter)
  have a: "[r \<leftarrow> ?kept @ ?new. key r \<in> key ` set ?kept] = ?kept"
    unfolding filter_append a1 a2 by simp
  have b: "[r \<leftarrow> ?kept @ ?new. key r \<notin> key ` set ?kept] = ?new"
    unfolding filter_append b1 b2 by simp
  have p: "?pair ` set (?kept @ ?new) = ?pair ` set ?kept \<union> ?pair ` set df"
    if len: "\<forall>r \<in> set existing \<union> set df. length (date r) = n"
  proof
    show "?pair ` set (?kept @ ?new) \<subseteq> ?pair ` set ?kept \<union> ?pair ` set df"
      by auto
    show "?pair ` set ?kept \<union> ?pair ` set df \<subseteq> ?pair ` set (?kept @ ?new)"
    proof
      fix q assume "q \<in> ?pair ` set ?kept \<union> ?pair ` set df"
      then consider "q \<in> ?pair ` set ?kept" | r where "r \<in> set df" "q = ?pair r"
        by blast
      then show "q \<in> ?pair ` set (?kept @ ?new)"
      proof cases
        case 1
        then show ?thesis by auto
      next
        case 2
        show ?thesis
        proof (cases "key r \<in> key ` set ?kept")
          case True
          then obtain e where e: "e \<in> set ?kept" "key r = key e" by blast
          from e(1) have "e \<in> set existing" by simp
          with len 2(1) have "length (date r) = length (date e)" by simp
          with e(2) have "?pair r = ?pair e" by (simp add: key_inj)
          with e(1) 2(2) show ?thesis by auto
        next
          case False
          with 2 have "r \<in> set ?new" by simp
          with 2(2) show ?thesis by auto
        qed
      qed
    qed
  qed
  have w: "\<forall>r \<in> set (?kept @ ?new). cutoff_date \<le> date r"
    using within by auto
  show ?thesis using s k a b p w by blast
qed

theorem dedup_merge_existing_wins_witness:
  "[tx ''2024-01-03'' ''2'' 77, tx ''2024-01-03'' ''3'' 30] \<noteq> []
   \<and> ''2024-01-01'' \<le> date (tx ''2024-01-03'' ''2'' 77)
   \<and> ''2024-01-01'' \<le> date (tx ''2024-01-03'' ''3'' 30)
   \<and> length ''2024-01-02'' = 10 \<and> length ''2024-01-03'' = 10
   \<and> (\<exists>merged.
        save_to_parquet ''2024-01-01'' True
           (Stored [tx ''2024-01-02'' ''1'' 10, tx ''2024-01-03'' ''2'' 20])
           [tx ''2024-01-03'' ''2'' 77, tx ''2024-01-03'' ''3'' 30] = (True, Stored merged)
        \<and> (\<lambda>r. (date r, transaction_no r)) ` set merged
            = {(''2024-01-02'', ''1''), (''2024-01-03'', ''2''), (''2024-01-03'', ''3'')})"
proof -
  define ex0 where "ex0 = [tx ''2024-01-02'' ''1'' 10, tx ''2024-01-03'' ''2'' 20]"
  define df0 where "df0 = [tx ''2024-01-03'' ''2'' 77, tx ''2024-01-03'' ''3'' 30]"
  let ?pair = "\<lambda>r. (date r, transaction_no r)"
  have ne: "df0 \<noteq> []" by (simp add: df0_def)
  have within: "\<forall>r \<in> set df0. ''2024-01-01'' \<le> date r"
    by (simp add: df0_def tx_def)
  have len: "\<forall>r \<in> set ex0 \<union> set df0. length (date r) = 10"
    by (simp add: ex0_def df0_def tx_def)
  have kept: "[r \<leftarrow> ex0. ''2024-01-01'' \<le> date r] = ex0"
    by (simp add: ex0_def tx_def)
  from dedup_merge_existing_wins [where existing = ex0 and n = 10, OF ne within]
  obtain merged
    where m: "save_to_parquet ''2024-01-01'' True (Stored ex0) df0 = (True, Stored merged)"
      and p: "(\<forall>r \<in> set ex0 \<union> set df0. length (date r) = 10) \<longrightarrow>
                ?pair ` set merged
                  = ?pair ` set [r \<leftarrow> ex0. ''2024-01-01'' \<le> date r] \<union> ?pair ` set df0"
    by (elim exE conjE) (rule that)
  from p len have "?pair ` set merged
      = ?pair ` set [r \<leftarrow> ex0. ''2024-01-01'' \<le> date r] \<union> ?pair ` set df0"
    by (rule mp)
  also have "\<dots> = {(''2024-01-02'', ''1''), (''2024-01-03'', ''2''), (''2024-01-03'', ''3'')}"
    unfolding kept by (simp add: ex0_def df0_def tx_def insert_commute)
  finally have "?pair ` set merged
      = {(''2024-01-02'', ''1''), (''2024-01-03'', ''2''), (''2024-01-03'', ''3'')}" .
  with m have "\<exists>merged.
      save_to_parquet ''2024-01-01'' True (Stored ex0) df0 = (True, Stored merged)
      \<and> ?pair ` set merged
          = {(''2024-01-02'', ''1''), (''2024-01-03'', ''2''), (''2024-01-03'', ''3'')}"
    by (intro exI conjI)
  then show ?thesis
    unfolding ex0_def df0_def by (simp add: tx_def)
qed

text \<open>
  C3 as stated fails: with stored keys k1, k2 and batch keys k2, k3 the row of k2 in the
  result is the stored one (amount 20), not the one of the batch (amount 77).
\<close>

theorem dedup_merge_new_wins_counterexample:
  "save_to_parquet ''2024-01-01'' True
       (Stored [tx ''2024-01-02'' ''1'' 10, tx ''2024-01-03'' ''2'' 20])
       [tx ''2024-01-03'' ''2'' 77, tx ''2024-01-03'' ''3'' 30]
     = (True, Stored [tx ''2024-01-02'' ''1'' 10, tx ''2024-01-03'' ''2'' 20,
                      tx ''2024-01-03'' ''3'' 30])
   \<and> key (tx ''2024-01-03'' ''2'' 77) = key (tx ''2024-01-03'' ''2'' 20)
   \<and> tx ''2024-01-03'' ''2'' 77 \<noteq> tx ''2024-01-03'' ''2'' 20
   \<and> tx ''2024-01-03'' ''2'' 77
       \<notin> set [tx ''2024-01-02'' ''1'' 10, tx ''2024-01-03'' ''2'' 20, tx ''2024-01-03'' ''3'' 30]"
  by (simp add: save_to_parquet_def merge_existing_eq key_def tx_def)

text \<open>
  C4 at a failing input: a stored table and a batch whose only row is dated before the
  cutoff. The merge branch filters the stored rows only, and the row of 2020 is written.
\<close>

theorem merge_writes_row_older_than_cutoff:
  "save_to_parquet ''2024-01-01'' True
       (Stored [tx ''2024-06-01'' ''1'' 500]) [tx ''2020-01-01'' ''7'' 300]
     = (True, Stored [tx ''2024-06-01'' ''1'' 500, tx ''2020-01-01'' ''7'' 300])
   \<and> date (tx ''2020-01-01'' ''7'' 300) < ''2024-01-01''"
  by (simp add: save_to_parquet_def merge_existing_eq key_def tx_def)

text \<open>
  C8, as the code has it. When no row of the batch passes the retention filter and there
  is no stored table, nothing is written, the file stays absent, and the run ends with
  exit status 1.
\<close>

theorem empty_after_retention_is_failure:
  assumes "[r \<leftarrow> df. cutoff_date \<le> date r] = []"
  shows "downloader_main cutoff_date Absent df = (1, Absent)"
proof (cases "df = []")
  case True
  then show ?thesis by (simp add: downloader_main_def)
next
  case False
  then have "0 < length df" by simp
  with assms False show ?thesis
    by (simp add: downloader_main_def save_to_parquet_def write_new_def)
qed

theorem empty_after_retention_is_failure_witness:
  "[r \<leftarrow> [tx ''2020-01-01'' ''7'' 300]. ''2024-01-01'' \<le> date r] = []
   \<and> downloader_main ''2024-01-01'' Absent [tx ''2020-01-01'' ''7'' 300] = (1, Absent)"
proof -
  have h: "[r \<leftarrow> [tx ''2020-01-01'' ''7'' 300]. ''2024-01-01'' \<le> date r] = []"
    by (simp add: tx_def)
  from h empty_after_retention_is_failure [OF h] show ?thesis by simp
qed

text \<open>C8 as stated fails: the run ends with exit status 1, not with success.\<close>

theorem empty_after_retention_counterexample:
  "downloader_main ''2024-01-01'' Absent [tx ''2020-01-01'' ''7'' 300] = (1, Absent)
   \<and> fst (downloader_main ''2024-01-01'' Absent [tx ''2020-01-01'' ''7'' 300]) \<noteq> 0"
  by (simp add: downloader_main_def save_to_parquet_def write_new_def tx_def)

section \<open>Date Rollup and Global Rollup: the tables in closed form\<close>

lemma add_metrics_eq: "add_metrics x = Inr (day_row x)"
  by (simp add: add_metrics_def day_row_def calc_avg_buy_price_def calc_avg_sell_price_def
      calc_avg_holding_price_def calc_net_quantity_def py_div_def)

lemma map_result_total: "(\<And>x. f x = Inr (g x)) \<Longrightarrow> map_result f xs = Inr (map g xs)"
  by (induction xs) simp_all


lemma update_fresh: "k \<notin> fst ` set al \<Longrightarrow> AList.update k v al = al @ [(k, v)]"
  by (induction al) auto

lemma set_update_subset: "set (AList.update k v al) \<subseteq> insert (k, v) (set al)"
  by (induction al) auto

lemma add_buy_nonempty: "add_buy d row aggs \<noteq> []"
  by (simp add: add_buy_def Let_def split: prod.splits option.splits)

lemma add_sell_nonempty: "add_sell d row aggs \<noteq> []"
  by (simp add: add_sell_def Let_def split: prod.splits option.splits)

lemma fold_nonempty:
  assumes "\<And>x s. f x s \<noteq> []" and "xs \<noteq> [] \<or> s \<noteq> []"
  shows "fold f xs s \<noteq> []"
  using assms(2) by (induction xs arbitrary: s) (simp_all add: assms(1))

lemma groupby_sum_nonempty: "df \<noteq> [] \<Longrightarrow> groupby_sum keyf df \<noteq> []"
  by (cases df) (auto simp: groupby_sum_def dest: arg_cong [where f = set])

lemma broker_stock_aggs_nonempty: "xs \<noteq> [] \<Longrightarrow> broker_stock_aggs d xs \<noteq> []"
  unfolding broker_stock_aggs_def
  by (intro fold_nonempty add_sell_nonempty disjI1) (simp add: sell_data_def groupby_sum_nonempty)

lemma date_df_eq: "date_df d xs = Inr (day_rows d xs)"
  unfolding date_df_def day_rows_def by (rule map_result_total) (rule add_metrics_eq)

lemma summarize_dates_eq:
  assumes "distinct ds" and "set ds \<inter> fst ` set acc = {}"
    and "\<forall>d \<in> set ds. [r \<leftarrow> data. date r = d] \<noteq> []"
  shows "summarize_dates data ds acc
           = Inr (acc @ map (\<lambda>d. (d, day_rows d [r \<leftarrow> data. date r = d])) ds)"
  using assms
proof (induction ds arbitrary: acc)
  case Nil
  then show ?case by simp
next
  case (Cons d ds)
  let ?df = "day_rows d [r \<leftarrow> data. date r = d]"
  from Cons.prems have ne: "?df \<noteq> []"
    by (simp add: day_rows_def broker_stock_aggs_nonempty)
  from Cons.prems have fresh: "d \<notin> fst ` set acc" by auto
  have "set ds \<inter> fst ` set (acc @ [(d, ?df)]) = {}"
    using Cons.prems by auto
  with Cons.prems Cons.IH [of "acc @ [(d, ?df)]"]
  have "summarize_dates data ds (acc @ [(d, ?df)])
          = Inr ((acc @ [(d, ?df)]) @ map (\<lambda>d. (d, day_rows d [r \<leftarrow> data. date r = d])) ds)"
    by simp
  with ne fresh show ?case
    by (simp add: date_df_eq update_fresh)
qed

lemma distinct_unique: "distinct (unique xs)"
  by (simp add: unique_def)

lemma set_unique: "set (unique xs) = set xs"
  by (simp add: unique_def)

lemma summarize_by_date_eq:
  "summarize_by_date df
     = map (\<lambda>d. (d, day_rows d [r \<leftarrow> df. date r = d])) (unique (map date df))"
proof (cases "df = []")
  case True
  then show ?thesis by (simp add: summarize_by_date_def unique_def)
next
  case False
  have "\<forall>d \<in> set (unique (map date df)). [r \<leftarrow> df. date r = d] \<noteq> []"
    by (auto simp: set_unique filter_empty_conv)
  then have "summarize_dates df (unique (map date df)) []
      = Inr ([] @ map (\<lambda>d. (d, day_rows d [r \<leftarrow> df. date r = d])) (unique (map date df)))"
    by (intro summarize_dates_eq distinct_unique) simp_all
  with False show ?thesis by (simp add: summarize_by_date_def)
qed

lemma g_add_metrics_eq: "g_add_metrics x = Inr (global_row x)"
  by (simp add: g_add_metrics_def global_row_def g_calc_avg_buy_price_def
      g_calc_avg_sell_price_def g_calc_avg_holding_price_def g_calc_net_quantity_def py_div_def)

lemma aggregate_raising_eq:
  "aggregate_raising df = Inr (map global_row (map snd (fold add_row df [])))"
  unfolding aggregate_raising_def by (rule map_result_total) (rule g_add_metrics_eq)

lemma aggregate_eq:
  "aggregate_broker_stock_data df = map global_row (map snd (fold add_row df []))"
  by (simp add: aggregate_broker_stock_data_def aggregate_raising_eq)

lemma summarize_dates_total: "\<exists>s. summarize_dates data ds acc = Inr s"
  by (induction ds arbitrary: acc) (simp_all add: date_df_eq)

lemma summarize_tx:
  "summarize_by_date [tx d n a] = [(d, [srow d ''1'' ''B1'' 10 a 0 0, srow d ''2'' ''B2'' 0 0 10 a])]"
  by (simp add: summarize_by_date_eq day_rows_def broker_stock_aggs_def buy_data_def sell_data_def
      groupby_sum_def add_buy_def add_sell_def srow_def unique_def tx_def)

lemma summarize_tx2:
  "d \<noteq> d' \<Longrightarrow> summarize_by_date [tx d n a, tx d' n' a']
     = [(d, [srow d ''1'' ''B1'' 10 a 0 0, srow d ''2'' ''B2'' 0 0 10 a]),
        (d', [srow d' ''1'' ''B1'' 10 a' 0 0, srow d' ''2'' ''B2'' 0 0 10 a'])]"
  by (simp add: summarize_by_date_eq day_rows_def broker_stock_aggs_def buy_data_def sell_data_def
      groupby_sum_def add_buy_def add_sell_def srow_def unique_def tx_def)


section \<open>Derived metrics\<close>

lemma summarize_by_date_rows:
  assumes "(d, rows) \<in> set (summarize_by_date df)" and "x \<in> set rows"
  obtains a where "x = day_row a"
  using assms by (auto simp: summarize_by_date_eq day_rows_def)

lemma aggregate_rows:
  assumes "y \<in> set (aggregate_broker_stock_data sdf)"
  obtains a where "y = global_row a"
  using assms by (auto simp: aggregate_eq)

text \<open>
  C5. Every row of every per-date table of \<open>summarize_by_date\<close> and every row of the
  table of \<open>aggregate_broker_stock_data\<close> has: the average buy price equal to buy amount
  divided by buy quantity when the buy quantity is positive and 0 otherwise, the same on
  the sell side, the net quantity equal to buy quantity minus sell quantity, and the
  average holding price equal to (buy amount - sell amount) divided by the net quantity
  when the net quantity is positive and 0 otherwise (so 0 for a negative net position).
\<close>

theorem derived_metrics_formulas:
  "((d, rows) \<in> set (summarize_by_date df) \<and> x \<in> set rows \<longrightarrow>
      avg_buy_price x = (if buy_quantity x > 0 then buy_amount x / of_int (buy_quantity x) else 0)
    \<and> avg_sell_price x
        = (if sell_quantity x > 0 then sell_amount x / of_int (sell_quantity x) else 0)
    \<and> net_quantity x = buy_quantity x - sell_quantity x
    \<and> avg_holding_price x
        = (if net_quantity x > 0
           then (buy_amount x - sell_amount x) / of_int (net_quantity x) else 0))
   \<and> (y \<in> set (aggregate_broker_stock_data sdf) \<longrightarrow>
      g_avg_buy_price y
        = (if g_buy_quantity y > 0 then g_buy_amount y / of_int (g_buy_quantity y) else 0)
    \<and> g_avg_sell_price y
        = (if g_sell_quantity y > 0 then g_sell_amount y / of_int (g_sell_quantity y) else 0)
    \<and> g_net_quantity y = g_buy_quantity y - g_sell_quantity y
    \<and> g_avg_holding_price y
        = (if g_net_quantity y > 0
           then (g_buy_amount y - g_sell_amount y) / of_int (g_net_quantity y) else 0))"
proof (intro conjI impI)
  assume "(d, rows) \<in> set (summarize_by_date df) \<and> x \<in> set rows"
  then obtain a where x: "x = day_row a" by (blast elim: summarize_by_date_rows)
  show "avg_buy_price x = (if buy_quantity x > 0 then buy_amount x / of_int (buy_quantity x) else 0)"
    and "avg_sell_price x
        = (if sell_quantity x > 0 then sell_amount x / of_int (sell_quantity x) else 0)"
    and "net_quantity x = buy_quantity x - sell_quantity x"
    and "avg_holding_price x
        = (if net_quantity x > 0
           then (buy_amount x - sell_amount x) / of_int (net_quantity x) else 0)"
    by (simp_all add: x day_row_def)
next
  assume "y \<in> set (aggregate_broker_stock_data sdf)"
  then obtain a where y: "y = global_row a" by (blast elim: aggregate_rows)
  show "g_avg_buy_price y
        = (if g_buy_quantity y > 0 then g_buy_amount y / of_int (g_buy_quantity y) else 0)"
    and "g_avg_sell_price y
        = (if g_sell_quantity y > 0 then g_sell_amount y / of_int (g_sell_quantity y) else 0)"
    and "g_net_quantity y = g_buy_quantity y - g_sell_quantity y"
    and "g_avg_holding_price y
        = (if g_net_quantity y > 0
           then (g_buy_amount y - g_sell_amount y) / of_int (g_net_quantity y) else 0)"
    by (simp_all add: y global_row_def)
qed

theorem derived_metrics_formulas_witness:
  "(''2024-01-02'', [srow ''2024-01-02'' ''1'' ''B1'' 10 100 0 0, srow ''2024-01-02'' ''2'' ''B2'' 0 0 10 100])
      \<in> set (summarize_by_date [tx ''2024-01-02'' ''1'' 100])
   \<and> srow ''2024-01-02'' ''1'' ''B1'' 10 100 0 0
      \<in> set [srow ''2024-01-02'' ''1'' ''B1'' 10 100 0 0, srow ''2024-01-02'' ''2'' ''B2'' 0 0 10 100]
   \<and> avg_buy_price (srow ''2024-01-02'' ''1'' ''B1'' 10 100 0 0) = 10
   \<and> avg_holding_price (srow ''2024-01-02'' ''1'' ''B1'' 10 100 0 0) = 10
   \<and> global_row \<lparr>g_broker_id = ''1'', g_broker_name = ''B1'', g_symbol = ''X'',
         g_buy_quantity = 10, g_buy_amount = 100, g_sell_quantity = 0, g_sell_amount = 0,
         last_updated = ''2024-01-02''\<rparr>
      \<in> set (aggregate_broker_stock_data [srow ''2024-01-02'' ''1'' ''B1'' 10 100 0 0])
   \<and> g_avg_buy_price (global_row \<lparr>g_broker_id = ''1'', g_broker_name = ''B1'', g_symbol = ''X'',
         g_buy_quantity = 10, g_buy_amount = 100, g_sell_quantity = 0, g_sell_amount = 0,
         last_updated = ''2024-01-02''\<rparr>) = 10"
proof -
  let ?x = "srow ''2024-01-02'' ''1'' ''B1'' 10 100 0 0"
  let ?rows = "[?x, srow ''2024-01-02'' ''2'' ''B2'' 0 0 10 100]"
  let ?y = "global_row \<lparr>g_broker_id = ''1'', g_broker_name = ''B1'', g_symbol = ''X'',
         g_buy_quantity = 10, g_buy_amount = 100, g_sell_quantity = 0, g_sell_amount = 0,
         last_updated = ''2024-01-02''\<rparr>"
  have m: "(''2024-01-02'', ?rows) \<in> set (summarize_by_date [tx ''2024-01-02'' ''1'' 100])
             \<and> ?x \<in> set ?rows"
    by (simp add: summarize_tx)
  have g: "?y \<in> set (aggregate_broker_stock_data [?x])"
    by (simp add: aggregate_eq add_row_def gkey_def srow_def day_row_def)
  have q: "buy_quantity ?x = 10" "buy_amount ?x = 100" "sell_quantity ?x = 0" "sell_amount ?x = 0"
    "g_buy_quantity ?y = 10" "g_buy_amount ?y = 100"
    by (simp_all add: srow_def day_row_def global_row_def)
  note t = derived_metrics_formulas
    [of "''2024-01-02''" ?rows "[tx ''2024-01-02'' ''1'' 100]" ?x ?y "[?x]"]
  from t [THEN conjunct1, THEN mp, OF m]
  have a: "avg_buy_price ?x = 10" "avg_holding_price ?x = 10"
    unfolding q by simp_all
  from t [THEN conjunct2, THEN mp, OF g]
  have b: "g_avg_buy_price ?y = 10"
    unfolding q by simp
  show ?thesis
    by (intro conjI m [THEN conjunct1] m [THEN conjunct2] a g b)
qed

text \<open>
  C6, as the code has it. The derived-metric computation never raises: the table of a
  date, the loop over the dates and the global aggregation always return normally, every
  division being guarded by a test that its divisor is positive. In every row produced
  by either stage the average buy price is 0 whenever the buy quantity is 0, and the
  average sell price is 0 whenever the sell quantity is 0.
\<close>

theorem divisions_guarded_zero_prices:
  "(\<exists>rows. date_df d date_data = Inr rows)
   \<and> (\<exists>s. summarize_dates data dates acc = Inr s)
   \<and> (\<exists>agg_df. aggregate_raising sdf = Inr agg_df)
   \<and> ((d', rows') \<in> set (summarize_by_date df) \<and> x \<in> set rows' \<longrightarrow>
        (buy_quantity x = 0 \<longrightarrow> avg_buy_price x = 0)
      \<and> (sell_quantity x = 0 \<longrightarrow> avg_sell_price x = 0))
   \<and> (y \<in> set (aggregate_broker_stock_data sdf') \<longrightarrow>
        (g_buy_quantity y = 0 \<longrightarrow> g_avg_buy_price y = 0)
      \<and> (g_sell_quantity y = 0 \<longrightarrow> g_avg_sell_price y = 0))"
proof (intro conjI)
  show "\<exists>rows. date_df d date_data = Inr rows"
    by (simp add: date_df_eq)
  show "\<exists>s. summarize_dates data dates acc = Inr s"
    by (rule summarize_dates_total)
  show "\<exists>agg_df. aggregate_raising sdf = Inr agg_df"
    by (simp add: aggregate_raising_eq)
  show "(d', rows') \<in> set (summarize_by_date df) \<and> x \<in> set rows' \<longrightarrow>
        (buy_quantity x = 0 \<longrightarrow> avg_buy_price x = 0)
      \<and> (sell_quantity x = 0 \<longrightarrow> avg_sell_price x = 0)"
  proof
    assume "(d', rows') \<in> set (summarize_by_date df) \<and> x \<in> set rows'"
    then obtain a where x: "x = day_row a" by (blast elim: summarize_by_date_rows)
    show "(buy_quantity x = 0 \<longrightarrow> avg_buy_price x = 0)
      \<and> (sell_quantity x = 0 \<longrightarrow> avg_sell_price x = 0)"
      by (simp add: x day_row_def)
  qed
  show "y \<in> set (aggregate_broker_stock_data sdf') \<longrightarrow>
        (g_buy_quantity y = 0 \<longrightarrow> g_avg_buy_price y = 0)
      \<and> (g_sell_quantity y = 0 \<longrightarrow> g_avg_sell_price y = 0)"
  proof
    assume "y \<in> set (aggregate_broker_stock_data sdf')"
    then obtain a where y: "y = global_row a" by (blast elim: aggregate_rows)
    show "(g_buy_quantity y = 0 \<longrightarrow> g_avg_buy_price y = 0)
      \<and> (g_sell_quantity y = 0 \<longrightarrow> g_avg_sell_price y = 0)"
      by (simp add: y global_row_def)
  qed
qed

theorem divisions_guarded_zero_prices_witness:
  "(''2024-01-02'', [srow ''2024-01-02'' ''1'' ''B1'' 10 0 0 0, srow ''2024-01-02'' ''2'' ''B2'' 0 0 10 0])
      \<in> set (summarize_by_date [tx ''2024-01-02'' ''1'' 0])
   \<and> srow ''2024-01-02'' ''2'' ''B2'' 0 0 10 0
      \<in> set [srow ''2024-01-02'' ''1'' ''B1'' 10 0 0 0, srow ''2024-01-02'' ''2'' ''B2'' 0 0 10 0]
   \<and> buy_quantity (srow ''2024-01-02'' ''2'' ''B2'' 0 0 10 0) = 0
   \<and> avg_buy_price (srow ''2024-01-02'' ''2'' ''B2'' 0 0 10 0) = 0
   \<and> global_row \<lparr>g_broker_id = ''2'', g_broker_name = ''B2'', g_symbol = ''X'',
         g_buy_quantity = 0, g_buy_amount = 0, g_sell_quantity = 10, g_sell_amount = 0,
         last_updated = ''2024-01-02''\<rparr>
      \<in> set (aggregate_broker_stock_data [srow ''2024-01-02'' ''2'' ''B2'' 0 0 10 0])
   \<and> g_avg_buy_price (global_row \<lparr>g_broker_id = ''2'', g_broker_name = ''B2'', g_symbol = ''X'',
         g_buy_quantity = 0, g_buy_amount = 0, g_sell_quantity = 10, g_sell_amount = 0,
         last_updated = ''2024-01-02''\<rparr>) = 0"
proof -
  let ?x = "srow ''2024-01-02'' ''2'' ''B2'' 0 0 10 0"
  let ?rows = "[srow ''2024-01-02'' ''1'' ''B1'' 10 0 0 0, ?x]"
  let ?y = "global_row \<lparr>g_broker_id = ''2'', g_broker_name = ''B2'', g_symbol = ''X'',
         g_buy_quantity = 0, g_buy_amount = 0, g_sell_quantity = 10, g_sell_amount = 0,
         last_updated = ''2024-01-02''\<rparr>"
  have m: "(''2024-01-02'', ?rows) \<in> set (summarize_by_date [tx ''2024-01-02'' ''1'' 0])
             \<and> ?x \<in> set ?rows"
    by (simp add: summarize_tx)
  have g: "?y \<in> set (aggregate_broker_stock_data [?x])"
    by (simp add: aggregate_eq add_row_def gkey_def srow_def day_row_def)
  have q: "buy_quantity ?x = 0" "g_buy_quantity ?y = 0"
    by (simp_all add: srow_def day_row_def global_row_def)
  note t = divisions_guarded_zero_prices
    [of _ _ _ _ _ _ "''2024-01-02''" ?rows "[tx ''2024-01-02'' ''1'' 0]" ?x ?y "[?x]"]
  from t [THEN conjunct2, THEN conjunct2, THEN conjunct2, THEN conjunct1, THEN mp, OF m,
      THEN conjunct1, THEN mp, OF q(1)]
  have a: "avg_buy_price ?x = 0" .
  from t [THEN conjunct2, THEN conjunct2, THEN conjunct2, THEN conjunct2, THEN mp, OF g,
      THEN conjunct1, THEN mp, OF q(2)]
  have b: "g_avg_buy_price ?y = 0" .
  show ?thesis
    by (intro conjI m [THEN conjunct1] m [THEN conjunct2] q(1) a g b)
qed

text \<open>
  C6 as stated fails in the direction from price to quantity: a transaction of quantity
  10 and amount 0 gives the buyer a row with average buy price 0 and buy quantity 10.
\<close>

theorem zero_price_biconditional_counterexample:
  "summarize_by_date [tx ''2024-01-02'' ''1'' 0]
     = [(''2024-01-02'',
         [srow ''2024-01-02'' ''1'' ''B1'' 10 0 0 0, srow ''2024-01-02'' ''2'' ''B2'' 0 0 10 0])]
   \<and> avg_buy_price (srow ''2024-01-02'' ''1'' ''B1'' 10 0 0 0) = 0
   \<and> buy_quantity (srow ''2024-01-02'' ''1'' ''B1'' 10 0 0 0) = 10
   \<and> amount (tx ''2024-01-02'' ''1'' 0) = 0
   \<and> quantity (tx ''2024-01-02'' ''1'' 0) = 10"
  by (simp add: summarize_tx) (simp add: srow_def day_row_def tx_def)


section \<open>Date Rollup: the upsert by date\<close>

lemma two_day_summaries:
  "summarize_by_date [tx ''2024-01-02'' ''1'' 100, tx ''2024-01-03'' ''2'' 50]
     = [(''2024-01-02'', day1_rows), (''2024-01-03'', day2_rows)]"
  by (simp add: summarize_tx2 day1_rows_def day2_rows_def)

lemma first_run: "date_rollup_run ''2024-01-01'' two_day_raw Absent = (True, Stored (day1_rows @ day2_rows))"
  by (simp add: date_rollup_run_def two_day_raw_def load_data_def two_day_summaries save_date_summaries_def)
     (simp add: tx_def)

lemma second_run: "date_rollup_run ''2024-01-01'' two_day_raw (Stored (day1_rows @ day2_rows))
       = (True, Stored (day2_rows @ day1_rows @ day1_rows @ day2_rows))"
  apply (simp add: date_rollup_run_def two_day_raw_def load_data_def two_day_summaries save_date_summaries_def)
  apply (simp add: tx_def merge_date_def day1_rows_def day2_rows_def srow_def day_row_def)
  done

text \<open>
  C1 at a failing input: a raw table with one transaction on each of two days and no
  Date Rollup file. The first run writes the four summary rows. The second run, on the
  same raw table, finds both dates in the file, appends for each date the stored rows of
  the other date and then the new rows, and writes eight rows: every row twice.
\<close>

theorem date_rollup_second_run_duplicates_rows:
  "date_rollup_run ''2024-01-01'' two_day_raw Absent = (True, Stored (day1_rows @ day2_rows))
   \<and> date_rollup_run ''2024-01-01'' two_day_raw (Stored (day1_rows @ day2_rows))
       = (True, Stored (day2_rows @ day1_rows @ day1_rows @ day2_rows))
   \<and> mset (day2_rows @ day1_rows @ day1_rows @ day2_rows) \<noteq> mset (day1_rows @ day2_rows)"
proof -
  have "size (mset (day2_rows @ day1_rows @ day1_rows @ day2_rows)) \<noteq> size (mset (day1_rows @ day2_rows))"
    by (simp add: day1_rows_def day2_rows_def)
  then have "mset (day2_rows @ day1_rows @ day1_rows @ day2_rows) \<noteq> mset (day1_rows @ day2_rows)"
    by metis
  with first_run second_run show ?thesis by (intro conjI)
qed

text \<open>
  C2 at a failing input: the file holds one row for each of 2024-01-02, 2024-01-03 and
  2024-01-04 and the run recomputes the last two dates. The written table keeps the
  replaced rows of both recomputed dates (each is appended with the stored rows "excluding"
  the other date) and holds the row of the untouched date twice.
\<close>

theorem upsert_keeps_replaced_rows:
  "save_date_summaries ''2024-01-01''
       (Stored [srow ''2024-01-02'' ''1'' ''B1'' 5 50 0 0,
                srow ''2024-01-03'' ''1'' ''B1'' 6 60 0 0,
                srow ''2024-01-04'' ''1'' ''B1'' 7 70 0 0])
       [(''2024-01-03'', [srow ''2024-01-03'' ''1'' ''B1'' 8 80 0 0]),
        (''2024-01-04'', [srow ''2024-01-04'' ''1'' ''B1'' 9 90 0 0])]
     = (True, Stored [srow ''2024-01-02'' ''1'' ''B1'' 5 50 0 0,
                      srow ''2024-01-04'' ''1'' ''B1'' 7 70 0 0,
                      srow ''2024-01-03'' ''1'' ''B1'' 8 80 0 0,
                      srow ''2024-01-02'' ''1'' ''B1'' 5 50 0 0,
                      srow ''2024-01-03'' ''1'' ''B1'' 6 60 0 0,
                      srow ''2024-01-04'' ''1'' ''B1'' 9 90 0 0])"
  by (simp add: save_date_summaries_def merge_date_def srow_def day_row_def)


section \<open>Broker-Stock Folder: order of the records and broker names\<close>

lemma sum_list_filter_mset:
  fixes g :: "'a \<Rightarrow> 'b::comm_monoid_add"
  assumes "mset xs = mset ys"
  shows "sum_list (map g (filter P xs)) = sum_list (map g (filter P ys))"
proof -
  have "mset (map g (filter P xs)) = mset (map g (filter P ys))"
    by (simp add: assms)
  then have "sum_mset (mset (map g (filter P xs))) = sum_mset (mset (map g (filter P ys)))"
    by (rule arg_cong)
  then show ?thesis
    by (simp only: sum_mset_sum_list)
qed

lemma sorted_keys_mset:
  fixes keyf :: "'a \<Rightarrow> 'k::linorder"
  assumes "mset xs = mset ys"
  shows "sort (remdups (map keyf xs)) = sort (remdups (map keyf ys))"
proof (rule sorted_distinct_set_unique)
  from assms have "set xs = set ys" by (rule mset_eq_setD)
  then show "set (sort (remdups (map keyf xs))) = set (sort (remdups (map keyf ys)))"
    by simp
qed simp_all

lemma map_of_apsnd: "map_of (map (apsnd f) al) k = map_option f (map_of al k)"
  by (induction al) auto

lemma update_apsnd:
  "AList.update k (f v) (map (apsnd f) al) = map (apsnd f) (AList.update k v al)"
  by (induction al) auto

lemma erase_add_buy:
  "map (apsnd erase) (add_buy_f A d ((b, n, s), q, a) aggs)
     = add_buy_f zero_arith d ((b, n, s), q, 0) (map (apsnd erase) aggs)"
proof (cases "map_of aggs (b, s)")
  case None
  have "erase \<lparr>s_date = d, broker_id = b, broker_name = n, s_symbol = s, buy_quantity = q,
          buy_amount = a, sell_quantity = 0, sell_amount = 0\<rparr>
      = \<lparr>s_date = d, broker_id = b, broker_name = n, s_symbol = s, buy_quantity = q,
          buy_amount = 0, sell_quantity = 0, sell_amount = 0\<rparr>"
    by (simp add: erase_def)
  with None show ?thesis
    by (simp add: add_buy_f_def map_of_apsnd update_apsnd [symmetric])
next
  case (Some e)
  have "erase (e\<lparr>buy_quantity := buy_quantity e + q, buy_amount := fadd A (buy_amount e) a\<rparr>)
      = (erase e)\<lparr>buy_quantity := buy_quantity (erase e) + q,
                   buy_amount := fadd zero_arith (buy_amount (erase e)) 0\<rparr>"
    by (simp add: erase_def zero_arith_def)
  with Some show ?thesis
    by (simp add: add_buy_f_def map_of_apsnd update_apsnd [symmetric])
qed

lemma erase_add_sell:
  "map (apsnd erase) (add_sell_f A d ((b, n, s), q, a) aggs)
     = add_sell_f zero_arith d ((b, n, s), q, 0) (map (apsnd erase) aggs)"
proof (cases "map_of aggs (b, s)")
  case None
  have "erase \<lparr>s_date = d, broker_id = b, broker_name = n, s_symbol = s, buy_quantity = 0,
          buy_amount = 0, sell_quantity = q, sell_amount = a\<rparr>
      = \<lparr>s_date = d, broker_id = b, broker_name = n, s_symbol = s, buy_quantity = 0,
          buy_amount = 0, sell_quantity = q, sell_amount = 0\<rparr>"
    by (simp add: erase_def)
  with None show ?thesis
    by (simp add: add_sell_f_def map_of_apsnd update_apsnd [symmetric])
next
  case (Some e)
  have "erase (e\<lparr>sell_quantity := sell_quantity e + q, sell_amount := fadd A (sell_amount e) a\<rparr>)
      = (erase e)\<lparr>sell_quantity := sell_quantity (erase e) + q,
                   sell_amount := fadd zero_arith (sell_amount (erase e)) 0\<rparr>"
    by (simp add: erase_def zero_arith_def)
  with Some show ?thesis
    by (simp add: add_sell_f_def map_of_apsnd update_apsnd [symmetric])
qed

lemma erase_fold_buy:
  "map (apsnd erase) (fold (add_buy_f A d) rows aggs)
     = fold (add_buy_f zero_arith d) (map (\<lambda>row. (fst row, fst (snd row), 0)) rows)
         (map (apsnd erase) aggs)"
proof (induction rows arbitrary: aggs)
  case Nil
  then show ?case by simp
next
  case (Cons row rows)
  obtain b n s q a where row: "row = ((b, n, s), q, a)" by (metis prod_cases3)
  show ?case
    by (simp add: Cons.IH row erase_add_buy)
qed

lemma erase_fold_sell:
  "map (apsnd erase) (fold (add_sell_f A d) rows aggs)
     = fold (add_sell_f zero_arith d) (map (\<lambda>row. (fst row, fst (snd row), 0)) rows)
         (map (apsnd erase) aggs)"
proof (induction rows arbitrary: aggs)
  case Nil
  then show ?case by simp
next
  case (Cons row rows)
  obtain b n s q a where row: "row = ((b, n, s), q, a)" by (metis prod_cases3)
  show ?case
    by (simp add: Cons.IH row erase_add_sell)
qed

lemma erase_groupby:
  "map (\<lambda>row. (fst row, fst (snd row), 0)) (groupby_sum_f A keyf df)
     = groupby_sum_f zero_arith keyf df"
  by (simp add: groupby_sum_f_def zero_arith_def comp_def)

lemma erase_broker_stock_aggs:
  "map (apsnd erase) (broker_stock_aggs_f A d xs) = broker_stock_aggs_f zero_arith d xs"
  by (simp add: broker_stock_aggs_f_def erase_fold_sell erase_fold_buy erase_groupby)

lemma groupby_zero_mset:
  assumes "mset xs = mset ys"
  shows "groupby_sum_f zero_arith keyf xs = groupby_sum_f zero_arith keyf ys"
  unfolding groupby_sum_f_def
  by (simp add: sorted_keys_mset [OF assms] sum_list_filter_mset [OF assms] zero_arith_def)

lemma aggs_zero_mset:
  "mset xs = mset ys \<Longrightarrow> broker_stock_aggs_f zero_arith d xs = broker_stock_aggs_f zero_arith d ys"
  by (simp add: broker_stock_aggs_f_def groupby_zero_mset [of xs ys])

lemma add_metrics_f_stable:
  "\<exists>y. add_metrics_f A x = Inr y \<and> stable_fields y = stable_agg x \<and> buy_amount y = buy_amount x"
  by (simp add: add_metrics_f_def py_div_f_def stable_fields_def stable_agg_def)

lemma map_result_Inr:
  assumes "\<And>x. \<exists>y. f x = Inr y \<and> p y = q x \<and> p' y = q' x"
  shows "\<exists>ys. map_result f xs = Inr ys \<and> map p ys = map q xs \<and> map p' ys = map q' xs"
proof (induction xs)
  case Nil
  then show ?case by simp
next
  case (Cons x xs)
  from assms [of x] obtain y where "f x = Inr y" "p y = q x" "p' y = q' x" by blast
  moreover from Cons.IH obtain ys
    where "map_result f xs = Inr ys" "map p ys = map q xs" "map p' ys = map q' xs" by blast
  ultimately show ?case by simp
qed

lemma date_df_f_stable:
  "\<exists>rows. date_df_f A d xs = Inr rows
     \<and> map stable_fields rows = map (stable_agg \<circ> snd) (broker_stock_aggs_f zero_arith d xs)
     \<and> map buy_amount rows = map (buy_amount \<circ> snd) (broker_stock_aggs_f A d xs)"
proof -
  from map_result_Inr [of "add_metrics_f A" stable_fields stable_agg buy_amount buy_amount,
      OF add_metrics_f_stable]
  obtain rows where rows: "date_df_f A d xs = Inr rows"
    "map stable_fields rows = map stable_agg (map snd (broker_stock_aggs_f A d xs))"
    "map buy_amount rows = map buy_amount (map snd (broker_stock_aggs_f A d xs))"
    unfolding date_df_f_def by blast
  have "stable_agg (erase a) = stable_agg a" for a
    by (simp add: stable_agg_def erase_def)
  then have "map stable_agg (map snd (broker_stock_aggs_f A d xs))
      = map stable_agg (map snd (map (apsnd erase) (broker_stock_aggs_f A d xs)))"
    by (simp add: comp_def)
  also have "\<dots> = map stable_agg (map snd (broker_stock_aggs_f zero_arith d xs))"
    by (simp only: erase_broker_stock_aggs)
  finally show ?thesis using rows by simp
qed

text \<open>
  C9, as the code has it. For two lists of transaction records that are permutations of
  each other, and for every arithmetic of the amounts, the per-date fold returns for both
  lists a table, and the two tables have the same rows in the same order as far as the
  date, the broker id, the broker name, the symbol, the buy quantity, the sell quantity
  and the net quantity go.
\<close>

theorem folder_permutation_stable_fields:
  assumes "mset xs = mset ys"
  shows "\<exists>rows_x rows_y. date_df_f A d xs = Inr rows_x \<and> date_df_f A d ys = Inr rows_y
    \<and> map stable_fields rows_x = map stable_fields rows_y"
proof -
  from date_df_f_stable [of A d xs] obtain rx where rx: "date_df_f A d xs = Inr rx"
    "map stable_fields rx = map (stable_agg \<circ> snd) (broker_stock_aggs_f zero_arith d xs)"
    by blast
  from date_df_f_stable [of A d ys] obtain ry where ry: "date_df_f A d ys = Inr ry"
    "map stable_fields ry = map (stable_agg \<circ> snd) (broker_stock_aggs_f zero_arith d ys)"
    by blast
  from rx ry aggs_zero_mset [OF assms, of d] show ?thesis by simp
qed


theorem folder_permutation_stable_fields_witness:
  "mset three_buys = mset three_buys_permuted
   \<and> (\<exists>rows_x rows_y.
         date_df_f float64 ''2024-01-02'' three_buys = Inr rows_x
       \<and> date_df_f float64 ''2024-01-02'' three_buys_permuted = Inr rows_y
       \<and> map stable_fields rows_x = map stable_fields rows_y
       \<and> map stable_fields rows_x
           = [(''2024-01-02'', ''B1'', ''Alpha'', ''X'', 30, 0, 30),
              (''2024-01-02'', ''B2'', ''Beta'', ''X'', 0, 30, - 30)])"
proof -
  have m: "mset three_buys = mset three_buys_permuted"
    by (simp add: three_buys_def three_buys_permuted_def)
  from folder_permutation_stable_fields [OF m, of float64 "''2024-01-02''"]
  obtain rx ry where r: "date_df_f float64 ''2024-01-02'' three_buys = Inr rx"
    "date_df_f float64 ''2024-01-02'' three_buys_permuted = Inr ry"
    "map stable_fields rx = map stable_fields ry"
    by (elim exE conjE)
  from date_df_f_stable [of float64 "''2024-01-02''" three_buys] r(1)
  have "map stable_fields rx
      = map (stable_agg \<circ> snd) (broker_stock_aggs_f zero_arith ''2024-01-02'' three_buys)"
    by auto
  also have "\<dots> = [(''2024-01-02'', ''B1'', ''Alpha'', ''X'', 30, 0, 30),
              (''2024-01-02'', ''B2'', ''Beta'', ''X'', 0, 30, - 30)]"
    by (simp add: three_buys_def broker_stock_aggs_f_def groupby_sum_f_def add_buy_f_def
        add_sell_f_def trade_def stable_agg_def)
  finally have v: "map stable_fields rx
      = [(''2024-01-02'', ''B1'', ''Alpha'', ''X'', 30, 0, 30),
         (''2024-01-02'', ''B2'', ''Beta'', ''X'', 0, 30, - 30)]" .
  from r v have "\<exists>rows_x rows_y.
         date_df_f float64 ''2024-01-02'' three_buys = Inr rows_x
       \<and> date_df_f float64 ''2024-01-02'' three_buys_permuted = Inr rows_y
       \<and> map stable_fields rows_x = map stable_fields rows_y
       \<and> map stable_fields rows_x
           = [(''2024-01-02'', ''B1'', ''Alpha'', ''X'', 30, 0, 30),
              (''2024-01-02'', ''B2'', ''Beta'', ''X'', 0, 30, - 30)]"
    by (intro exI conjI)
  with m show ?thesis by (intro conjI)
qed

lemma double_of_decimals:
  "amount_a = 4500257112022057 / 17592186044416"
  "amount_b = 2274812656479109 / 268435456"
  "amount_c = 5229310287051489 / 68719476736"
  "round_double (1 / 10) = 3602879701896397 / 36028797018963968"
  by code_simp+

lemma group_sum_abc: "group_sum 0 0 [amount_a, amount_b, amount_c] = 4590616636523807 / 536870912"
  by code_simp

lemma group_sum_acb: "group_sum 0 0 [amount_a, amount_c, amount_b] = 2295308318261903 / 268435456"
  by code_simp

lemma buy_amounts_eq:
  "buy_amounts (date_df_f A d xs) = map (buy_amount \<circ> snd) (broker_stock_aggs_f A d xs)"
  using date_df_f_stable [of A d xs] by (auto simp: buy_amounts_def)

lemma three_buys_amounts:
  "buy_amounts (date_df_f float64 ''2024-01-02'' three_buys)
     = [fsum float64 [amount_a, amount_b, amount_c], 0]"
  by (simp add: buy_amounts_eq three_buys_def broker_stock_aggs_f_def groupby_sum_f_def
      add_buy_f_def add_sell_f_def trade_def)

lemma three_buys_permuted_amounts:
  "buy_amounts (date_df_f float64 ''2024-01-02'' three_buys_permuted)
     = [fsum float64 [amount_a, amount_c, amount_b], 0]"
  by (simp add: buy_amounts_eq three_buys_permuted_def broker_stock_aggs_f_def groupby_sum_f_def
      add_buy_f_def add_sell_f_def trade_def)


text \<open>
  C9 as stated fails for the amount columns. In float64 arithmetic three purchases of
  one broker with the amounts 255.81, 8474337.52 and 76096.48 give that broker the buy
  amount 4590616636523807 / 536870912 (printed 8550689.81) when the records come in this
  order, and 2295308318261903 / 268435456 (printed 8550689.809999999) when the last two
  records are exchanged.
\<close>

theorem folder_float_sum_order_counterexample:
  "mset three_buys = mset three_buys_permuted
   \<and> buy_amounts (date_df_f float64 ''2024-01-02'' three_buys)
       = [4590616636523807 / 536870912, 0]
   \<and> buy_amounts (date_df_f float64 ''2024-01-02'' three_buys_permuted)
       = [2295308318261903 / 268435456, 0]
   \<and> date_df_f float64 ''2024-01-02'' three_buys
       \<noteq> date_df_f float64 ''2024-01-02'' three_buys_permuted"
proof -
  have m: "mset three_buys = mset three_buys_permuted"
    by (simp add: three_buys_def three_buys_permuted_def)
  have f: "fsum float64 = group_sum 0 0" by (simp add: float64_def)
  have a: "buy_amounts (date_df_f float64 ''2024-01-02'' three_buys)
       = [4590616636523807 / 536870912, 0]"
    by (simp only: three_buys_amounts f group_sum_abc)
  have b: "buy_amounts (date_df_f float64 ''2024-01-02'' three_buys_permuted)
       = [2295308318261903 / 268435456, 0]"
    by (simp only: three_buys_permuted_amounts f group_sum_acb)
  have "buy_amounts (date_df_f float64 ''2024-01-02'' three_buys)
      \<noteq> buy_amounts (date_df_f float64 ''2024-01-02'' three_buys_permuted)"
    unfolding a b by simp
  then have n: "date_df_f float64 ''2024-01-02'' three_buys
       \<noteq> date_df_f float64 ''2024-01-02'' three_buys_permuted"
    by metis
  show ?thesis by (intro conjI m a b n)
qed


text \<open>The folder of the Date Rollup is the folder in exact arithmetic.\<close>

lemma exact_sel:
  "fsum exact = sum_list" "fadd exact = (+)" "fsub exact = (-)"
  "fdiv exact = (\<lambda>a b. a / of_int b)"
  by (simp_all add: exact_def)

lemma groupby_sum_exact: "groupby_sum keyf df = groupby_sum_f exact keyf df"
  unfolding groupby_sum_def groupby_sum_f_def exact_sel ..

lemma add_buy_exact: "add_buy d = add_buy_f exact d"
proof (intro ext)
  fix row aggs
  show "add_buy d row aggs = add_buy_f exact d row aggs"
    unfolding add_buy_def add_buy_f_def exact_sel ..
qed

lemma add_sell_exact: "add_sell d = add_sell_f exact d"
proof (intro ext)
  fix row aggs
  show "add_sell d row aggs = add_sell_f exact d row aggs"
    unfolding add_sell_def add_sell_f_def exact_sel ..
qed

lemma add_metrics_exact: "add_metrics = add_metrics_f exact"
proof (intro ext)
  fix x
  show "add_metrics x = add_metrics_f exact x"
    unfolding add_metrics_def add_metrics_f_def calc_avg_buy_price_def
      calc_avg_sell_price_def calc_avg_holding_price_def calc_net_quantity_def py_div_def
      py_div_f_def exact_sel ..
qed

lemma date_df_exact: "date_df d xs = date_df_f exact d xs"
  unfolding date_df_def date_df_f_def broker_stock_aggs_def broker_stock_aggs_f_def
    buy_data_def sell_data_def groupby_sum_exact add_buy_exact add_sell_exact add_metrics_exact ..

lemma fold_invariant:
  assumes "P s" and "\<And>x s. x \<in> set xs \<Longrightarrow> P s \<Longrightarrow> P (f x s)"
  shows "P (fold f xs s)"
  using assms by (induction xs arbitrary: s) simp_all

lemma groupby_sum_keys:
  assumes "(k, q, a) \<in> set (groupby_sum keyf df)"
  obtains r where "r \<in> set df" and "keyf r = k"
  using assms by (auto simp: groupby_sum_def)

lemma groupby_sum_has_key:
  assumes "r \<in> set df"
  shows "\<exists>q a. (keyf r, q, a) \<in> set (groupby_sum keyf df)"
  using assms by (auto simp: groupby_sum_def)

text \<open>The keys of the dictionary after one step of either loop.\<close>

lemma add_buy_keys:
  "fst ` set (add_buy d ((b, n, s), q, a) aggs) = insert (b, s) (fst ` set aggs)"
  by (simp add: add_buy_def Let_def dom_update split: option.splits)

lemma add_sell_keys:
  "fst ` set (add_sell d ((b, n, s), q, a) aggs) = insert (b, s) (fst ` set aggs)"
  by (simp add: add_sell_def Let_def dom_update split: option.splits)

lemma add_buy_inv:
  assumes row: "((b, n, s), q, a) \<in> set (buy_data xs)"
    and inv: "\<forall>e \<in> set aggs. keyed e \<and> named_by_buyer xs e"
  shows "\<forall>e \<in> set (add_buy d ((b, n, s), q, a) aggs). keyed e \<and> named_by_buyer xs e"
proof
  fix e assume e: "e \<in> set (add_buy d ((b, n, s), q, a) aggs)"
  from row obtain r where r: "r \<in> set xs" "buyer_id r = b" "buyer_name r = n" "symbol r = s"
    unfolding buy_data_def by (auto elim!: groupby_sum_keys)
  show "keyed e \<and> named_by_buyer xs e"
  proof (cases "map_of aggs (b, s)")
    case None
    with e set_update_subset
    have "e \<in> set aggs \<or> e = ((b, s), \<lparr>s_date = d, broker_id = b, broker_name = n, s_symbol = s,
        buy_quantity = q, buy_amount = a, sell_quantity = 0, sell_amount = 0\<rparr>)"
      by (fastforce simp: add_buy_def)
    then show ?thesis
    proof
      assume "e \<in> set aggs" with inv show ?thesis by blast
    next
      assume "e = ((b, s), \<lparr>s_date = d, broker_id = b, broker_name = n, s_symbol = s,
        buy_quantity = q, buy_amount = a, sell_quantity = 0, sell_amount = 0\<rparr>)"
      with r show ?thesis by (auto simp: keyed_def named_by_buyer_def)
    qed
  next
    case (Some v)
    then have v: "((b, s), v) \<in> set aggs" by (rule map_of_SomeD)
    from Some e set_update_subset
    have "e \<in> set aggs \<or> e = ((b, s), v\<lparr>buy_quantity := buy_quantity v + q,
        buy_amount := buy_amount v + a\<rparr>)"
      by (fastforce simp: add_buy_def)
    then show ?thesis
    proof
      assume "e \<in> set aggs" with inv show ?thesis by blast
    next
      assume "e = ((b, s), v\<lparr>buy_quantity := buy_quantity v + q, buy_amount := buy_amount v + a\<rparr>)"
      moreover from inv v have "keyed ((b, s), v) \<and> named_by_buyer xs ((b, s), v)" by blast
      ultimately show ?thesis by (auto simp: keyed_def named_by_buyer_def)
    qed
  qed
qed

lemma add_sell_inv:
  assumes dom: "B \<subseteq> fst ` set aggs"
    and inv: "\<forall>e \<in> set aggs. keyed e \<and> (fst e \<in> B \<longrightarrow> named_by_buyer xs e)"
  shows "\<forall>e \<in> set (add_sell d ((b, n, s), q, a) aggs).
           keyed e \<and> (fst e \<in> B \<longrightarrow> named_by_buyer xs e)"
proof
  fix e assume e: "e \<in> set (add_sell d ((b, n, s), q, a) aggs)"
  show "keyed e \<and> (fst e \<in> B \<longrightarrow> named_by_buyer xs e)"
  proof (cases "map_of aggs (b, s)")
    case None
    then have "(b, s) \<notin> fst ` set aggs" by (simp add: map_of_eq_None_iff)
    with dom have nb: "(b, s) \<notin> B" by blast
    from None e set_update_subset
    have "e \<in> set aggs \<or> e = ((b, s), \<lparr>s_date = d, broker_id = b, broker_name = n, s_symbol = s,
        buy_quantity = 0, buy_amount = 0, sell_quantity = q, sell_amount = a\<rparr>)"
      by (fastforce simp: add_sell_def)
    then show ?thesis
    proof
      assume "e \<in> set aggs" with inv show ?thesis by blast
    next
      assume "e = ((b, s), \<lparr>s_date = d, broker_id = b, broker_name = n, s_symbol = s,
        buy_quantity = 0, buy_amount = 0, sell_quantity = q, sell_amount = a\<rparr>)"
      with nb show ?thesis by (simp add: keyed_def)
    qed
  next
    case (Some v)
    then have v: "((b, s), v) \<in> set aggs" by (rule map_of_SomeD)
    from Some e set_update_subset
    have "e \<in> set aggs \<or> e = ((b, s), v\<lparr>sell_quantity := sell_quantity v + q,
        sell_amount := sell_amount v + a\<rparr>)"
      by (fastforce simp: add_sell_def)
    then show ?thesis
    proof
      assume "e \<in> set aggs" with inv show ?thesis by blast
    next
      assume "e = ((b, s), v\<lparr>sell_quantity := sell_quantity v + q, sell_amount := sell_amount v + a\<rparr>)"
      moreover from inv v
      have "keyed ((b, s), v) \<and> ((b, s) \<in> B \<longrightarrow> named_by_buyer xs ((b, s), v))" by fastforce
      ultimately show ?thesis by (auto simp: keyed_def named_by_buyer_def)
    qed
  qed
qed

lemma fold_add_buy_keys:
  "fst ` set (fold (add_buy d) rows aggs)
     = (\<lambda>row. (fst (fst row), snd (snd (fst row)))) ` set rows \<union> fst ` set aggs"
proof (induction rows arbitrary: aggs)
  case Nil
  then show ?case by simp
next
  case (Cons row rows)
  obtain b n s q a where row: "row = ((b, n, s), q, a)" by (metis prod_cases3)
  show ?case
    by (simp add: Cons.IH) (auto simp: row add_buy_keys)
qed

lemma buy_keys:
  "(\<lambda>row. (fst (fst row), snd (snd (fst row)))) ` set (buy_data xs)
     = (\<lambda>r. (buyer_id r, symbol r)) ` set xs"
  by (force simp: buy_data_def groupby_sum_def image_iff)

lemma add_buy_distinct: "distinct (map fst aggs) \<Longrightarrow> distinct (map fst (add_buy d row aggs))"
  by (simp add: add_buy_def Let_def distinct_update split: prod.splits option.splits)

lemma add_sell_distinct: "distinct (map fst aggs) \<Longrightarrow> distinct (map fst (add_sell d row aggs))"
  by (simp add: add_sell_def Let_def distinct_update split: prod.splits option.splits)

lemma broker_stock_aggs_distinct: "distinct (map fst (broker_stock_aggs d xs))"
  unfolding broker_stock_aggs_def
  by (intro fold_invariant [where P = "\<lambda>aggs. distinct (map fst aggs)"]
      add_buy_distinct add_sell_distinct) simp_all

lemma broker_stock_aggs_inv:
  assumes "e \<in> set (broker_stock_aggs d xs)"
  shows "keyed e \<and> (fst e \<in> (\<lambda>r. (buyer_id r, symbol r)) ` set xs \<longrightarrow> named_by_buyer xs e)"
proof -
  let ?B = "(\<lambda>r. (buyer_id r, symbol r)) ` set xs"
  let ?bought = "fold (add_buy d) (buy_data xs) []"
  have b1: "\<forall>e \<in> set ?bought. keyed e \<and> named_by_buyer xs e"
  proof (rule fold_invariant [where P = "\<lambda>aggs. \<forall>e \<in> set aggs. keyed e \<and> named_by_buyer xs e"])
    show "\<forall>e \<in> set []. keyed e \<and> named_by_buyer xs e" by simp
  next
    fix row aggs
    assume "row \<in> set (buy_data xs)" and "\<forall>e \<in> set aggs. keyed e \<and> named_by_buyer xs e"
    moreover obtain b n s q a where "row = ((b, n, s), q, a)" by (metis prod_cases3)
    ultimately show "\<forall>e \<in> set (add_buy d row aggs). keyed e \<and> named_by_buyer xs e"
      using add_buy_inv by blast
  qed
  have b2: "?B \<subseteq> fst ` set ?bought"
    by (simp add: fold_add_buy_keys buy_keys)
  let ?P = "\<lambda>aggs. ?B \<subseteq> fst ` set aggs
      \<and> (\<forall>e \<in> set aggs. keyed e \<and> (fst e \<in> ?B \<longrightarrow> named_by_buyer xs e))"
  have "?P (fold (add_sell d) (sell_data xs) ?bought)"
  proof (rule fold_invariant [where P = ?P])
    show "?P ?bought" using b1 b2 by blast
  next
    fix row :: "(string \<times> string \<times> string) \<times> int \<times> rat" and aggs
    assume P: "?P aggs"
    obtain b n s q a where row: "row = ((b, n, s), q, a)" by (metis prod_cases3)
    from P have "?B \<subseteq> fst ` set (add_sell d row aggs)"
      unfolding row add_sell_keys by blast
    moreover from P
    have "\<forall>e \<in> set (add_sell d row aggs). keyed e \<and> (fst e \<in> ?B \<longrightarrow> named_by_buyer xs e)"
      unfolding row by (intro add_sell_inv) blast+
    ultimately show "?P (add_sell d row aggs)" by blast
  qed
  with assms show ?thesis
    unfolding broker_stock_aggs_def by blast
qed

lemma day_row_sel [simp]:
  "broker_id (day_row a) = broker_id a" "broker_name (day_row a) = broker_name a"
  "s_symbol (day_row a) = s_symbol a" "s_date (day_row a) = s_date a"
  "buy_quantity (day_row a) = buy_quantity a" "buy_amount (day_row a) = buy_amount a"
  "sell_quantity (day_row a) = sell_quantity a" "sell_amount (day_row a) = sell_amount a"
  by (simp_all add: day_row_def)

lemma day_rows_buyer_name:
  assumes x: "x \<in> set (day_rows d xs)"
    and r: "r \<in> set xs" "buyer_id r = broker_id x" "symbol r = s_symbol x"
  shows "\<exists>r' \<in> set xs. buyer_id r' = broker_id x \<and> symbol r' = s_symbol x
           \<and> broker_name x = buyer_name r'"
proof -
  from x obtain e where e: "e \<in> set (broker_stock_aggs d xs)" "x = day_row (snd e)"
    by (auto simp: day_rows_def)
  from broker_stock_aggs_inv [OF e(1)]
  have k: "fst e = (broker_id x, s_symbol x)"
    and n: "fst e \<in> (\<lambda>r. (buyer_id r, symbol r)) ` set xs \<Longrightarrow> named_by_buyer xs e"
    by (simp_all add: keyed_def e(2))
  from r have "fst e \<in> (\<lambda>r. (buyer_id r, symbol r)) ` set xs"
    unfolding k by force
  then have "named_by_buyer xs e" by (rule n)
  then show ?thesis
    unfolding named_by_buyer_def k by (simp add: e(2))
qed

lemma day_rows_distinct: "distinct (map (\<lambda>x. (broker_id x, s_symbol x)) (day_rows d xs))"
proof -
  have "map (\<lambda>x. (broker_id x, s_symbol x)) (day_rows d xs) = map fst (broker_stock_aggs d xs)"
    using broker_stock_aggs_inv [of _ d xs] by (simp add: day_rows_def keyed_def)
  then show ?thesis by (simp add: broker_stock_aggs_distinct)
qed

text \<open>
  C10. In a per-date summary table, the row of a broker and symbol that occur as buyer
  and symbol of some transaction of that date carries as broker name the buyer name of
  such a transaction; the table has one row for each pair of broker and symbol.
\<close>

theorem buyer_name_wins:
  assumes "(d, rows) \<in> set (summarize_by_date df)" and "x \<in> set rows"
    and "r \<in> set df" and "date r = d" and "buyer_id r = broker_id x" and "symbol r = s_symbol x"
  shows "(\<exists>r' \<in> set df. date r' = d \<and> buyer_id r' = broker_id x \<and> symbol r' = s_symbol x
            \<and> broker_name x = buyer_name r')
    \<and> distinct (map (\<lambda>x. (broker_id x, s_symbol x)) rows)"
proof -
  from assms(1) have rows: "rows = day_rows d [r \<leftarrow> df. date r = d]"
    by (auto simp: summarize_by_date_eq)
  from assms have "r \<in> set [r \<leftarrow> df. date r = d]" by simp
  with assms(2,5,6) day_rows_buyer_name [of x d "[r \<leftarrow> df. date r = d]" r]
  have "\<exists>r' \<in> set [r \<leftarrow> df. date r = d]. buyer_id r' = broker_id x \<and> symbol r' = s_symbol x
           \<and> broker_name x = buyer_name r'"
    unfolding rows by blast
  then have "\<exists>r' \<in> set df. date r' = d \<and> buyer_id r' = broker_id x \<and> symbol r' = s_symbol x
            \<and> broker_name x = buyer_name r'"
    by auto
  then show ?thesis
    unfolding rows by (simp add: day_rows_distinct)
qed

lemma both_sides_summary:
  "summarize_by_date both_sides_day
     = [(''2024-01-02'',
         [srow ''2024-01-02'' ''B1'' ''Alpha'' 100 10000 40 4200,
          srow ''2024-01-02'' ''B2'' ''Beta Sec'' 40 4200 100 10000])]"
  by (simp add: both_sides_day_def summarize_by_date_eq day_rows_def broker_stock_aggs_def
      buy_data_def sell_data_def groupby_sum_def add_buy_def add_sell_def srow_def unique_def
      trade_def)

theorem buyer_name_wins_witness:
  "(''2024-01-02'',
      [srow ''2024-01-02'' ''B1'' ''Alpha'' 100 10000 40 4200,
       srow ''2024-01-02'' ''B2'' ''Beta Sec'' 40 4200 100 10000])
     \<in> set (summarize_by_date both_sides_day)
   \<and> trade ''2024-01-02'' ''1'' (''B1'', ''Alpha'') (''B2'', ''Beta'') 100 10000 \<in> set both_sides_day
   \<and> (\<exists>r' \<in> set both_sides_day. date r' = ''2024-01-02''
         \<and> buyer_id r' = broker_id (srow ''2024-01-02'' ''B1'' ''Alpha'' 100 10000 40 4200)
         \<and> symbol r' = s_symbol (srow ''2024-01-02'' ''B1'' ''Alpha'' 100 10000 40 4200)
         \<and> broker_name (srow ''2024-01-02'' ''B1'' ''Alpha'' 100 10000 40 4200) = buyer_name r')
   \<and> broker_name (srow ''2024-01-02'' ''B1'' ''Alpha'' 100 10000 40 4200) = ''Alpha''"
proof -
  let ?x = "srow ''2024-01-02'' ''B1'' ''Alpha'' 100 10000 40 4200"
  let ?rows = "[?x, srow ''2024-01-02'' ''B2'' ''Beta Sec'' 40 4200 100 10000]"
  let ?r = "trade ''2024-01-02'' ''1'' (''B1'', ''Alpha'') (''B2'', ''Beta'') 100 10000"
  have m: "(''2024-01-02'', ?rows) \<in> set (summarize_by_date both_sides_day)"
    by (simp add: both_sides_summary)
  have x: "?x \<in> set ?rows" by simp
  have r: "?r \<in> set both_sides_day" by (simp add: both_sides_day_def)
  have d: "date ?r = ''2024-01-02''" "buyer_id ?r = broker_id ?x" "symbol ?r = s_symbol ?x"
    by (simp_all add: trade_def srow_def)
  have n: "broker_name ?x = ''Alpha''" by (simp add: srow_def)
  from buyer_name_wins [OF m x r d, THEN conjunct1] m r n show ?thesis
    by (intro conjI)
qed


section \<open>Global Rollup: the fold over the date summaries\<close>

lemma map_of_add_row:
  "map_of (add_row x S) k = (if k = gkey x then map_of (add_row x S) (gkey x) else map_of S k)"
  by (simp add: add_row_def Let_def update_conv' split: option.splits)

lemma key_total_other: "gkey x \<noteq> k \<Longrightarrow> key_total (df @ [x]) k = key_total df k"
  by (simp add: key_total_def)

lemma key_total_first:
  "gkey x \<notin> gkey ` set df \<Longrightarrow> key_total (df @ [x]) (gkey x)
     = \<lparr>g_broker_id = broker_id x, g_broker_name = broker_name x, g_symbol = s_symbol x,
        g_buy_quantity = buy_quantity x, g_buy_amount = buy_amount x,
        g_sell_quantity = sell_quantity x, g_sell_amount = sell_amount x,
        last_updated = s_date x\<rparr>"
proof -
  assume "gkey x \<notin> gkey ` set df"
  then have "[r \<leftarrow> df. gkey r = gkey x] = []"
    unfolding filter_empty_conv by (metis imageI)
  then show ?thesis
    by (simp add: key_total_def) (simp add: gkey_def)
qed

lemma key_total_next:
  assumes "gkey x \<in> gkey ` set df"
  shows "key_total (df @ [x]) (gkey x)
     = (key_total df (gkey x))
         \<lparr>g_buy_quantity := g_buy_quantity (key_total df (gkey x)) + buy_quantity x,
          g_buy_amount := g_buy_amount (key_total df (gkey x)) + buy_amount x,
          g_sell_quantity := g_sell_quantity (key_total df (gkey x)) + sell_quantity x,
          g_sell_amount := g_sell_amount (key_total df (gkey x)) + sell_amount x,
          last_updated := max (s_date x) (last_updated (key_total df (gkey x)))\<rparr>"
proof -
  from assms have ne: "s_date ` set [r \<leftarrow> df. gkey r = gkey x] \<noteq> {}"
    by auto
  have "Max (s_date ` set [r \<leftarrow> df @ [x]. gkey r = gkey x])
      = Max (insert (s_date x) (s_date ` set [r \<leftarrow> df. gkey r = gkey x]))"
    by simp
  also have "\<dots> = max (s_date x) (Max (s_date ` set [r \<leftarrow> df. gkey r = gkey x]))"
    using ne by (intro Max_insert) simp_all
  finally show ?thesis
    by (simp add: key_total_def)
qed

lemma fold_add_row_lookup:
  "map_of (fold add_row df []) k
     = (if k \<in> gkey ` set df then Some (key_total df k) else None)"
proof (induction df arbitrary: k rule: rev_induct)
  case Nil
  then show ?case by simp
next
  case (snoc x df)
  let ?S = "fold add_row df []"
  show ?case
  proof (cases "k = gkey x")
    case False
    then show ?thesis
      by (simp add: map_of_add_row [of x ?S k] snoc.IH key_total_other)
  next
    case True
    show ?thesis
    proof (cases "gkey x \<in> gkey ` set df")
      case False
      with snoc.IH [of "gkey x"] have "map_of ?S (gkey x) = None" by simp
      then have "map_of (add_row x ?S) (gkey x)
          = Some \<lparr>g_broker_id = broker_id x, g_broker_name = broker_name x, g_symbol = s_symbol x,
              g_buy_quantity = buy_quantity x, g_buy_amount = buy_amount x,
              g_sell_quantity = sell_quantity x, g_sell_amount = sell_amount x,
              last_updated = s_date x\<rparr>"
        by (simp add: add_row_def update_conv')
      with False True show ?thesis
        by (simp add: key_total_first)
    next
      case in_df: True
      with snoc.IH [of "gkey x"] have "map_of ?S (gkey x) = Some (key_total df (gkey x))" by simp
      then have "map_of (add_row x ?S) (gkey x) = Some (key_total (df @ [x]) (gkey x))"
        unfolding key_total_next [OF in_df]
        by (simp add: add_row_def Let_def update_conv' max_def not_less) 
      with True show ?thesis by simp
    qed
  qed
qed

lemma sum_list_single_key:
  fixes c :: "'b::comm_monoid_add"
  assumes "distinct ks" and "k0 \<in> set ks"
  shows "sum_list (map (\<lambda>k. if k = k0 then c else 0) ks) = c"
  using assms
proof (induction ks)
  case Nil
  then show ?case by simp
next
  case (Cons k ks)
  show ?case
  proof (cases "k = k0")
    case True
    with Cons.prems have "k0 \<notin> set ks" by simp
    then have "map (\<lambda>k. if k = k0 then c else 0) ks = map (\<lambda>k. 0) ks"
      by (intro map_cong) auto
    then have "sum_list (map (\<lambda>k. if k = k0 then c else 0) ks) = 0"
      by (simp only: sum_list_0)
    with True show ?thesis by simp
  next
    case False
    with Cons show ?thesis by simp
  qed
qed

lemma regroup_sums:
  fixes f :: "'r \<Rightarrow> 'b::comm_monoid_add"
  assumes "distinct ks" and "kf ` set df \<subseteq> set ks"
  shows "sum_list (map (\<lambda>k. if Q k then sum_list (map f [r \<leftarrow> df. kf r = k]) else 0) ks)
           = sum_list (map (\<lambda>r. if Q (kf r) then f r else 0) df)"
  using assms(2)
proof (induction df)
  case Nil
  then show ?case by (simp cong: if_cong)
next
  case (Cons x df)
  have "(\<lambda>k. if Q k then sum_list (map f [r \<leftarrow> x # df. kf r = k]) else 0)
      = (\<lambda>k. (if k = kf x then (if Q (kf x) then f x else 0) else 0)
              + (if Q k then sum_list (map f [r \<leftarrow> df. kf r = k]) else 0))"
    by (rule ext) auto
  then have "sum_list (map (\<lambda>k. if Q k then sum_list (map f [r \<leftarrow> x # df. kf r = k]) else 0) ks)
      = sum_list (map (\<lambda>k. if k = kf x then (if Q (kf x) then f x else 0) else 0) ks)
        + sum_list (map (\<lambda>k. if Q k then sum_list (map f [r \<leftarrow> df. kf r = k]) else 0) ks)"
    by (simp only: sum_list_addf)
  also have "sum_list (map (\<lambda>k. if k = kf x then (if Q (kf x) then f x else 0) else 0) ks)
      = (if Q (kf x) then f x else 0)"
    using assms(1) Cons.prems by (intro sum_list_single_key) auto
  also have "sum_list (map (\<lambda>k. if Q k then sum_list (map f [r \<leftarrow> df. kf r = k]) else 0) ks)
      = sum_list (map (\<lambda>r. if Q (kf r) then f r else 0) df)"
    using Cons.prems by (intro Cons.IH) auto
  finally show ?case by simp
qed

lemma add_row_distinct: "distinct (map fst S) \<Longrightarrow> distinct (map fst (add_row x S))"
  by (simp add: add_row_def Let_def distinct_update split: option.splits)

lemma fold_add_row_distinct: "distinct (map fst (fold add_row df []))"
  by (intro fold_invariant [where P = "\<lambda>S. distinct (map fst S)"] add_row_distinct) simp_all

lemma fold_add_row_keys: "set (map fst (fold add_row df [])) = gkey ` set df"
proof -
  have "fst ` set (fold add_row df []) = dom (map_of (fold add_row df []))"
    by (simp add: dom_map_of_conv_image_fst)
  also have "\<dots> = gkey ` set df"
    by (auto simp: fold_add_row_lookup dom_def)
  finally show ?thesis by simp
qed

lemma fold_add_row_values:
  "map snd (fold add_row df []) = map (key_total df) (map fst (fold add_row df []))"
proof -
  have "snd e = key_total df (fst e)" if "e \<in> set (fold add_row df [])" for e
  proof -
    from that have "map_of (fold add_row df []) (fst e) = Some (snd e)"
      by (simp add: fold_add_row_distinct)
    then show ?thesis
      by (simp add: fold_add_row_lookup split: if_splits)
  qed
  then show ?thesis by simp
qed

lemma aggregate_closed_form:
  "aggregate_broker_stock_data df
     = map (\<lambda>k. global_row (key_total df k)) (map fst (fold add_row df []))"
  by (simp add: aggregate_eq fold_add_row_values [of df] del: map_map) simp

lemma global_row_sel [simp]:
  "g_broker_id (global_row a) = g_broker_id a" "g_broker_name (global_row a) = g_broker_name a"
  "g_symbol (global_row a) = g_symbol a" "last_updated (global_row a) = last_updated a"
  "g_buy_quantity (global_row a) = g_buy_quantity a" "g_buy_amount (global_row a) = g_buy_amount a"
  "g_sell_quantity (global_row a) = g_sell_quantity a"
  "g_sell_amount (global_row a) = g_sell_amount a"
  by (simp_all add: global_row_def)

lemma key_total_sel [simp]:
  "g_broker_id (key_total df k) = fst k" "g_broker_name (key_total df k) = fst (snd k)"
  "g_symbol (key_total df k) = snd (snd k)"
  "g_buy_quantity (key_total df k) = sum_list (map buy_quantity [r \<leftarrow> df. gkey r = k])"
  "g_buy_amount (key_total df k) = sum_list (map buy_amount [r \<leftarrow> df. gkey r = k])"
  "g_sell_quantity (key_total df k) = sum_list (map sell_quantity [r \<leftarrow> df. gkey r = k])"
  "g_sell_amount (key_total df k) = sum_list (map sell_amount [r \<leftarrow> df. gkey r = k])"
  "last_updated (key_total df k) = Max (s_date ` set [r \<leftarrow> df. gkey r = k])"
  by (simp_all add: key_total_def)

lemma aggregate_keys:
  "map (\<lambda>y. (g_broker_id y, g_broker_name y, g_symbol y)) (aggregate_broker_stock_data df)
     = map fst (fold add_row df [])"
  by (simp add: aggregate_closed_form comp_def)

text \<open>
  C7. Every row of the global table belongs to a key (broker id, broker name, symbol) of
  the input, holds the sums of buy quantity, buy amount, sell quantity and sell amount
  over the input rows with that key, and has as \<open>last_updated\<close> the greatest date of
  those rows. The keys of the table are exactly the keys of the input, each once. For
  every broker id and symbol, the buy quantities of the rows of the global table with
  that broker id and symbol add up to the sum of the buy quantities of the input rows
  with that broker id and symbol.
\<close>

theorem global_fold_totals:
  "(y \<in> set (aggregate_broker_stock_data df) \<longrightarrow>
      (g_broker_id y, g_broker_name y, g_symbol y) \<in> gkey ` set df
    \<and> g_buy_quantity y = sum_list (map buy_quantity
          [r \<leftarrow> df. gkey r = (g_broker_id y, g_broker_name y, g_symbol y)])
    \<and> g_buy_amount y = sum_list (map buy_amount
          [r \<leftarrow> df. gkey r = (g_broker_id y, g_broker_name y, g_symbol y)])
    \<and> g_sell_quantity y = sum_list (map sell_quantity
          [r \<leftarrow> df. gkey r = (g_broker_id y, g_broker_name y, g_symbol y)])
    \<and> g_sell_amount y = sum_list (map sell_amount
          [r \<leftarrow> df. gkey r = (g_broker_id y, g_broker_name y, g_symbol y)])
    \<and> last_updated y = Max (s_date ` set
          [r \<leftarrow> df. gkey r = (g_broker_id y, g_broker_name y, g_symbol y)]))
   \<and> (\<lambda>y. (g_broker_id y, g_broker_name y, g_symbol y)) ` set (aggregate_broker_stock_data df)
        = gkey ` set df
   \<and> distinct (map (\<lambda>y. (g_broker_id y, g_broker_name y, g_symbol y))
        (aggregate_broker_stock_data df))
   \<and> sum_list (map g_buy_quantity
          [y \<leftarrow> aggregate_broker_stock_data df. g_broker_id y = b \<and> g_symbol y = s])
        = sum_list (map buy_quantity [r \<leftarrow> df. broker_id r = b \<and> s_symbol r = s])"
proof (intro conjI impI)
  let ?ks = "map fst (fold add_row df [])"
  let ?kf = "\<lambda>y. (g_broker_id y, g_broker_name y, g_symbol y)"
  have ks: "set ?ks = gkey ` set df" by (rule fold_add_row_keys)
  show keys: "?kf ` set (aggregate_broker_stock_data df) = gkey ` set df"
    using aggregate_keys [of df, THEN arg_cong, of set] ks by simp
  show "distinct (map ?kf (aggregate_broker_stock_data df))"
    by (simp only: aggregate_keys fold_add_row_distinct)
  have "sum_list (map g_buy_quantity
          [y \<leftarrow> aggregate_broker_stock_data df. g_broker_id y = b \<and> g_symbol y = s])
      = sum_list (map (\<lambda>k. if fst k = b \<and> snd (snd k) = s
                             then sum_list (map buy_quantity [r \<leftarrow> df. gkey r = k]) else 0) ?ks)"
    by (simp add: aggregate_closed_form sum_list_map_filter' comp_def cong: if_cong)
  also have "\<dots> = sum_list (map (\<lambda>r. if fst (gkey r) = b \<and> snd (snd (gkey r)) = s
                                       then buy_quantity r else 0) df)"
    by (intro regroup_sums fold_add_row_distinct) (simp only: ks subset_refl)
  also have "\<dots> = sum_list (map buy_quantity [r \<leftarrow> df. broker_id r = b \<and> s_symbol r = s])"
    by (simp add: sum_list_map_filter' gkey_def)
  finally show "sum_list (map g_buy_quantity
          [y \<leftarrow> aggregate_broker_stock_data df. g_broker_id y = b \<and> g_symbol y = s])
        = sum_list (map buy_quantity [r \<leftarrow> df. broker_id r = b \<and> s_symbol r = s])" .
  assume "y \<in> set (aggregate_broker_stock_data df)"
  then have "y \<in> (\<lambda>k. global_row (key_total df k)) ` set ?ks"
    by (simp only: aggregate_closed_form set_map)
  then obtain k where k: "k \<in> set ?ks" and y: "y = global_row (key_total df k)"
    by (rule imageE)
  have kf: "?kf y = k" by (simp add: y)
  from k ks show "?kf y \<in> gkey ` set df" by (simp only: kf)
  show "g_buy_quantity y = sum_list (map buy_quantity [r \<leftarrow> df. gkey r = ?kf y])"
    and "g_buy_amount y = sum_list (map buy_amount [r \<leftarrow> df. gkey r = ?kf y])"
    and "g_sell_quantity y = sum_list (map sell_quantity [r \<leftarrow> df. gkey r = ?kf y])"
    and "g_sell_amount y = sum_list (map sell_amount [r \<leftarrow> df. gkey r = ?kf y])"
    and "last_updated y = Max (s_date ` set [r \<leftarrow> df. gkey r = ?kf y])"
    unfolding kf by (simp_all add: y)
qed

theorem global_fold_totals_witness:
  "global_row \<lparr>g_broker_id = ''B1'', g_broker_name = ''Alpha'', g_symbol = ''X'',
        g_buy_quantity = 15, g_buy_amount = 140, g_sell_quantity = 0, g_sell_amount = 0,
        last_updated = ''2024-01-03''\<rparr>
     \<in> set (aggregate_broker_stock_data
          [srow ''2024-01-03'' ''B1'' ''Alpha'' 10 100 0 0,
           srow ''2024-01-02'' ''B1'' ''Alpha'' 5 40 0 0])
   \<and> sum_list (map buy_quantity
        [r \<leftarrow> [srow ''2024-01-03'' ''B1'' ''Alpha'' 10 100 0 0,
               srow ''2024-01-02'' ''B1'' ''Alpha'' 5 40 0 0].
           gkey r = (''B1'', ''Alpha'', ''X'')]) = 15
   \<and> Max (s_date ` set
        [r \<leftarrow> [srow ''2024-01-03'' ''B1'' ''Alpha'' 10 100 0 0,
               srow ''2024-01-02'' ''B1'' ''Alpha'' 5 40 0 0].
           gkey r = (''B1'', ''Alpha'', ''X'')]) = ''2024-01-03''"
proof -
  let ?df = "[srow ''2024-01-03'' ''B1'' ''Alpha'' 10 100 0 0,
              srow ''2024-01-02'' ''B1'' ''Alpha'' 5 40 0 0]"
  let ?y = "global_row \<lparr>g_broker_id = ''B1'', g_broker_name = ''Alpha'', g_symbol = ''X'',
        g_buy_quantity = 15, g_buy_amount = 140, g_sell_quantity = 0, g_sell_amount = 0,
        last_updated = ''2024-01-03''\<rparr>"
  have m: "?y \<in> set (aggregate_broker_stock_data ?df)"
    by (simp add: aggregate_eq add_row_def gkey_def srow_def day_row_def)
  have k: "(g_broker_id ?y, g_broker_name ?y, g_symbol ?y) = (''B1'', ''Alpha'', ''X'')"
    by simp
  have v: "g_buy_quantity ?y = 15" "last_updated ?y = ''2024-01-03''"
    by simp_all
  note t = global_fold_totals [of ?y ?df, THEN conjunct1, THEN mp, OF m, unfolded k v]
  from t [THEN conjunct2, THEN conjunct1]
  have a: "sum_list (map buy_quantity [r \<leftarrow> ?df. gkey r = (''B1'', ''Alpha'', ''X'')]) = 15"
    by (rule sym)
  from t [THEN conjunct2, THEN conjunct2, THEN conjunct2, THEN conjunct2, THEN conjunct2]
  have b: "Max (s_date ` set [r \<leftarrow> ?df. gkey r = (''B1'', ''Alpha'', ''X'')]) = ''2024-01-03''"
    by (rule sym)
  from m a b show ?thesis by (intro conjI)
qed

end
